theory Spec2Isabelle
  imports Complex_Main
begin

section \<open>Data model (safety-types)\<close>

text \<open>
  JavaScript numbers are modelled as real numbers: every numeric input is a finite
  number and arithmetic is exact. The two places where the engine can leave the finite
  numbers are written out: the value \<open>Infinity\<close> that \<open>distanceFromRoute\<close> starts from
  (type \<open>jsdist\<close>), and a division by a divisor that is not a constant, which goes through
  \<open>js_div\<close> and yields \<open>None\<close> when the divisor is zero. The rounding of double
  arithmetic is not modelled; where it decides what \<open>calculateDistance\<close> returns, at
  nearly antipodal points, the geometry is given a second time with the computed
  haversine term as a parameter.
  Field names that several interfaces share carry a prefix.
\<close>

datatype location_source = Gps | Network | Wifi | Cell | LastKnown

record location =
  lat :: real
  lng :: real
  timestamp :: real
  accuracy :: "real option"
  source :: location_source

record highRiskZone =
  zone_id :: string
  center :: location
  radius :: real
  riskLevel :: real
  zone_reason :: string
  reportCount :: real
  lastReported :: real

record route =
  route_id :: string
  waypoints :: "location list"
  safetyScore :: real
  distance :: real
  estimatedDuration :: real
  highRiskZones :: "highRiskZone list"

text \<open>
  A distance from the route: \<open>distanceFromRoute\<close> starts its running minimum at
  \<open>Infinity\<close> and returns it for a route without waypoints.
\<close>

datatype jsdist = Infinity | Finite real

record deviationPoint =
  dp_location :: location
  dp_distanceFromRoute :: jsdist
  duration :: real
  dp_timestamp :: real

record threatFactors =
  routeDeviation :: real
  suspiciousStops :: real
  highRiskZone :: real
  locationDisabled :: real

datatype threat_level = Safe | Low | Medium | High | Critical

datatype threat_action = NoAction | Log | SilentDispatch | EmergencyEscalation

record threatAssessment =
  ta_timestamp :: real
  score :: real
  factors :: threatFactors
  level :: threat_level
  action :: threat_action

datatype report_type = UnsafeArea | SafeArea | Incident | SuspiciousActivity

record communityReport =
  report_id :: string
  reporterId :: string
  reporterTrustScore :: real
  report_location :: location
  report_type :: report_type
  description :: string
  report_timestamp :: real
  verificationCount :: real
  isVerified :: bool

definition SAFE_CORRIDOR_RADIUS :: real where
  "SAFE_CORRIDOR_RADIUS = 100"

definition SUSPICIOUS_STOP_DURATION :: real where
  "SUSPICIOUS_STOP_DURATION = 60000"

definition LOCATION_UPDATE_INTERVAL :: real where
  "LOCATION_UPDATE_INTERVAL = 10000"

definition SOFT_ALERT :: real where
  "SOFT_ALERT = 0.4"

definition SILENT_DISPATCH :: real where
  "SILENT_DISPATCH = 0.7"

definition EMERGENCY_ESCALATION :: real where
  "EMERGENCY_ESCALATION = 0.9"

definition ROUTE_DEVIATION :: real where
  "ROUTE_DEVIATION = 0.4"

definition SUSPICIOUS_STOPS :: real where
  "SUSPICIOUS_STOPS = 0.3"

definition HIGH_RISK_ZONE :: real where
  "HIGH_RISK_ZONE = 0.2"

definition LOCATION_DISABLED :: real where
  "LOCATION_DISABLED = 0.1"

definition MAX_WEIGHT :: real where
  "MAX_WEIGHT = 0.1"

definition MIN_TRUST_SCORE :: real where
  "MIN_TRUST_SCORE = 0.3"

definition MIN_CONSENSUS :: nat where
  "MIN_CONSENSUS = 3"

definition DECAY_DAYS :: real where
  "DECAY_DAYS = 30"

section \<open>Geometry (safety-engine)\<close>

text \<open>
  \<open>Math.atan2\<close> on finite arguments, signed zeros left out: the angle of the point
  \<open>(x, y)\<close>, in \<open>(-pi, pi]\<close>, and \<open>0\<close> at the origin.
\<close>

definition atan2 :: "real \<Rightarrow> real \<Rightarrow> real" where
  "atan2 y x =
     (if 0 < x then arctan (y / x)
      else if x < 0 then (if 0 \<le> y then arctan (y / x) + pi else arctan (y / x) - pi)
      else if 0 < y then pi / 2
      else if y < 0 then - (pi / 2)
      else 0)"

text \<open>The haversine term \<open>a\<close> of \<open>calculateDistance\<close>, as a function of the two points.\<close>

definition haversine_a :: "location \<Rightarrow> location \<Rightarrow> real" where
  "haversine_a point1 point2 =
     (let lat1Rad = (lat point1 * pi) / 180;
          lat2Rad = (lat point2 * pi) / 180;
          deltaLat = ((lat point2 - lat point1) * pi) / 180;
          deltaLng = ((lng point2 - lng point1) * pi) / 180
      in sin (deltaLat / 2) * sin (deltaLat / 2) +
         cos lat1Rad * cos lat2Rad * sin (deltaLng / 2) * sin (deltaLng / 2))"

definition calculateDistance :: "location \<Rightarrow> location \<Rightarrow> real" where
  "calculateDistance point1 point2 =
     (let R = 6371000;
          a = haversine_a point1 point2;
          c = 2 * atan2 (sqrt a) (sqrt (1 - a))
      in R * c)"

text \<open>
  A division whose divisor is not a constant. \<open>None\<close> stands for the non-finite result
  (\<open>NaN\<close> or an infinity) that JavaScript gives for a zero divisor.
\<close>

definition js_div :: "real \<Rightarrow> real \<Rightarrow> real option" where
  "js_div x y = (if y = 0 then None else Some (x / y))"

text \<open>
  \<open>pointToLineSegmentDistance\<close>. When \<open>lenSq\<close> is zero so is \<open>dot\<close>, so an unguarded
  division would be \<open>0 / 0 = NaN\<close>, which fails both comparisons on \<open>param\<close> and reaches
  the result: \<open>None\<close> is returned in that case.
\<close>

definition pointToLineSegmentDistance :: "location \<Rightarrow> location \<Rightarrow> location \<Rightarrow> real option" where
  "pointToLineSegmentDistance point lineStart lineEnd =
     (let A = lat point - lat lineStart;
          B = lng point - lng lineStart;
          C = lat lineEnd - lat lineStart;
          D = lng lineEnd - lng lineStart;
          dot = A * C + B * D;
          lenSq = C * C + D * D;
          param = (if lenSq \<noteq> 0 then js_div dot lenSq else Some (- 1))
      in case param of
           None \<Rightarrow> None
         | Some prm \<Rightarrow>
             (let nearest =
                (if prm < 0 then (lat lineStart, lng lineStart)
                 else if 1 < prm then (lat lineEnd, lng lineEnd)
                 else (lat lineStart + prm * C, lng lineStart + prm * D))
              in Some (calculateDistance point
                   \<lparr>lat = fst nearest, lng = snd nearest, timestamp = 0,
                    accuracy = None, source = Gps\<rparr>)))"

fun lt_dist :: "real \<Rightarrow> jsdist \<Rightarrow> bool" where
  "lt_dist d Infinity = True"
| "lt_dist d (Finite m) = (d < m)"

text \<open>First loop of \<open>distanceFromRoute\<close>: the waypoints.\<close>

fun waypointLoop :: "location \<Rightarrow> location list \<Rightarrow> jsdist \<Rightarrow> jsdist" where
  "waypointLoop point [] minDistance = minDistance"
| "waypointLoop point (waypoint # rest) minDistance =
     (let d = calculateDistance point waypoint
      in waypointLoop point rest (if lt_dist d minDistance then Finite d else minDistance))"

text \<open>
  Second loop: the segments between consecutive waypoints. A segment distance that is
  not a number compares false and is skipped.
\<close>

fun segmentLoop :: "location \<Rightarrow> location list \<Rightarrow> jsdist \<Rightarrow> jsdist" where
  "segmentLoop point (w1 # w2 # rest) minDistance =
     segmentLoop point (w2 # rest)
       (case pointToLineSegmentDistance point w1 w2 of
          None \<Rightarrow> minDistance
        | Some segmentDistance \<Rightarrow>
            (if lt_dist segmentDistance minDistance then Finite segmentDistance
             else minDistance))"
| "segmentLoop point ws minDistance = minDistance"

definition distanceFromRoute :: "location \<Rightarrow> route \<Rightarrow> jsdist" where
  "distanceFromRoute point rt =
     segmentLoop point (waypoints rt) (waypointLoop point (waypoints rt) Infinity)"

section \<open>Geometry with the haversine term as the machine computes it\<close>

text \<open>
  In double arithmetic the haversine term \<open>a\<close> of \<open>calculateDistance\<close> is rounded, and for
  nearly antipodal points the rounded term is above \<open>1\<close>: for a point at \<open>(8, 0)\<close> and
  a point at \<open>(-8, 180)\<close> it is \<open>1 + 1 / 2 ^ 52\<close> (printed \<open>1.0000000000000002\<close>), while
  the exact term is \<open>1\<close>. The rounding of \<open>sin\<close> and \<open>cos\<close> is not modelled. The functions
  of this section are the geometry once more, with the computed term as the parameter
  \<open>computed\<close> and with \<open>Math.sqrt\<close> of a negative number as \<open>NaN\<close> (\<open>None\<close>), which
  \<open>Math.atan2\<close> and the two products pass on and which compares false with every
  number. With the exact term they are the functions of the section before.
\<close>

definition distanceOfTerm :: "real \<Rightarrow> real option" where
  "distanceOfTerm a =
     (if a < 0 \<or> 1 - a < 0 then None
      else Some (6371000 * (2 * atan2 (sqrt a) (sqrt (1 - a)))))"

definition calculateDistanceWith ::
  "(location \<Rightarrow> location \<Rightarrow> real) \<Rightarrow> location \<Rightarrow> location \<Rightarrow> real option" where
  "calculateDistanceWith computed point1 point2 = distanceOfTerm (computed point1 point2)"

definition pointToLineSegmentDistanceWith ::
  "(location \<Rightarrow> location \<Rightarrow> real) \<Rightarrow> location \<Rightarrow> location \<Rightarrow> location \<Rightarrow> real option" where
  "pointToLineSegmentDistanceWith computed point lineStart lineEnd =
     (let A = lat point - lat lineStart;
          B = lng point - lng lineStart;
          C = lat lineEnd - lat lineStart;
          D = lng lineEnd - lng lineStart;
          dot = A * C + B * D;
          lenSq = C * C + D * D;
          param = (if lenSq \<noteq> 0 then js_div dot lenSq else Some (- 1))
      in case param of
           None \<Rightarrow> None
         | Some prm \<Rightarrow>
             (let nearest =
                (if prm < 0 then (lat lineStart, lng lineStart)
                 else if 1 < prm then (lat lineEnd, lng lineEnd)
                 else (lat lineStart + prm * C, lng lineStart + prm * D))
              in calculateDistanceWith computed point
                   \<lparr>lat = fst nearest, lng = snd nearest, timestamp = 0,
                    accuracy = None, source = Gps\<rparr>))"

fun waypointLoopWith ::
  "(location \<Rightarrow> location \<Rightarrow> real) \<Rightarrow> location \<Rightarrow> location list \<Rightarrow> jsdist \<Rightarrow> jsdist" where
  "waypointLoopWith computed point [] minDistance = minDistance"
| "waypointLoopWith computed point (waypoint # rest) minDistance =
     waypointLoopWith computed point rest
       (case calculateDistanceWith computed point waypoint of
          None \<Rightarrow> minDistance
        | Some d \<Rightarrow> (if lt_dist d minDistance then Finite d else minDistance))"

fun segmentLoopWith ::
  "(location \<Rightarrow> location \<Rightarrow> real) \<Rightarrow> location \<Rightarrow> location list \<Rightarrow> jsdist \<Rightarrow> jsdist" where
  "segmentLoopWith computed point (w1 # w2 # rest) minDistance =
     segmentLoopWith computed point (w2 # rest)
       (case pointToLineSegmentDistanceWith computed point w1 w2 of
          None \<Rightarrow> minDistance
        | Some segmentDistance \<Rightarrow>
            (if lt_dist segmentDistance minDistance then Finite segmentDistance
             else minDistance))"
| "segmentLoopWith computed point ws minDistance = minDistance"

definition distanceFromRouteWith ::
  "(location \<Rightarrow> location \<Rightarrow> real) \<Rightarrow> location \<Rightarrow> route \<Rightarrow> jsdist" where
  "distanceFromRouteWith computed point rt =
     segmentLoopWith computed point (waypoints rt)
       (waypointLoopWith computed point (waypoints rt) Infinity)"

section \<open>Threat factor calculators (safety-engine)\<close>

fun le_dist :: "jsdist \<Rightarrow> real \<Rightarrow> bool" where
  "le_dist Infinity r = False"
| "le_dist (Finite d) r = (d \<le> r)"

text \<open>
  \<open>calculateRouteDeviationScore\<close>. The clock \<open>Date.now()\<close> is the first argument;
  \<open>Math.min(Infinity / 1000, 1)\<close> is \<open>1\<close>.
\<close>

definition calculateRouteDeviationScore ::
  "real \<Rightarrow> location \<Rightarrow> route \<Rightarrow> deviationPoint list \<Rightarrow> real" where
  "calculateRouteDeviationScore now currentLocation confirmedRoute deviationHistory =
     (let currentDistance = distanceFromRoute currentLocation confirmedRoute
      in if le_dist currentDistance SAFE_CORRIDOR_RADIUS then 0
         else
           (let distanceScore =
                  (case currentDistance of Infinity \<Rightarrow> 1 | Finite d \<Rightarrow> min (d / 1000) 1);
                recentDeviations =
                  filter (\<lambda>d. now - dp_timestamp d < 300000) deviationHistory;
                totalDeviationTime = foldl (\<lambda>sum d. sum + duration d) 0 recentDeviations;
                timeScore = min (totalDeviationTime / 300000) 1
            in min (distanceScore * 0.6 + timeScore * 0.4) 1))"

text \<open>
  \<open>calculateSuspiciousStopsScore\<close>: the three loop variables, the speed of one
  consecutive pair, the loop body for index \<open>i\<close> and the loop.
\<close>

record stops_state =
  suspiciousStopCount :: nat
  currentStopDuration :: real
  stopStartIndex :: int

definition pairSpeed :: "location \<Rightarrow> location \<Rightarrow> real option" where
  "pairSpeed previous current =
     (let dist = calculateDistance previous current;
          timeDiff = timestamp current - timestamp previous
      in if 0 < timeDiff then js_div dist (timeDiff / 1000) else Some 0)"

text \<open>A speed that is not a finite number is not below \<open>1\<close>.\<close>

definition speedBelowOne :: "real option \<Rightarrow> bool" where
  "speedBelowOne speed = (case speed of None \<Rightarrow> False | Some v \<Rightarrow> v < 1)"

definition stopStep :: "nat \<Rightarrow> location \<Rightarrow> location \<Rightarrow> stops_state \<Rightarrow> stops_state" where
  "stopStep i previous current st =
     (let timeDiff = timestamp current - timestamp previous;
          speed = pairSpeed previous current
      in if speedBelowOne speed then
           st\<lparr>stopStartIndex :=
                 (if stopStartIndex st = - 1 then int i - 1 else stopStartIndex st),
              currentStopDuration := currentStopDuration st + timeDiff\<rparr>
         else
           st\<lparr>suspiciousStopCount :=
                 (if SUSPICIOUS_STOP_DURATION < currentStopDuration st
                  then suspiciousStopCount st + 1 else suspiciousStopCount st),
              currentStopDuration := 0,
              stopStartIndex := - 1\<rparr>)"

fun stopLoop :: "nat \<Rightarrow> location list \<Rightarrow> stops_state \<Rightarrow> stops_state" where
  "stopLoop i (previous # current # rest) st =
     stopLoop (i + 1) (current # rest) (stopStep i previous current st)"
| "stopLoop i locs st = st"

definition calculateSuspiciousStopsScore :: "location list \<Rightarrow> real" where
  "calculateSuspiciousStopsScore locationHistory =
     (if length locationHistory < 2 then 0
      else
        (let st = stopLoop 1 locationHistory
                    \<lparr>suspiciousStopCount = 0, currentStopDuration = 0, stopStartIndex = - 1\<rparr>;
             suspiciousStopCount' =
               (if SUSPICIOUS_STOP_DURATION < currentStopDuration st
                then suspiciousStopCount st + 1 else suspiciousStopCount st)
         in min (real suspiciousStopCount' / 3) 1))"

text \<open>
  \<open>calculateHighRiskZoneScore\<close>. The division by \<open>zone.radius\<close> is only reached with
  \<open>radius < distance \<le> 2 * radius\<close>, where the radius is positive.
\<close>

fun zoneLoop :: "location \<Rightarrow> highRiskZone list \<Rightarrow> real \<Rightarrow> real" where
  "zoneLoop currentLocation [] maxRisk = maxRisk"
| "zoneLoop currentLocation (zone # rest) maxRisk =
     (let dist = calculateDistance currentLocation (center zone)
      in zoneLoop currentLocation rest
           (if dist \<le> radius zone then max maxRisk (riskLevel zone)
            else if dist \<le> radius zone * 2 then
              (let proximityFactor = 1 - (dist - radius zone) / radius zone
               in max maxRisk (riskLevel zone * proximityFactor))
            else maxRisk))"

definition calculateHighRiskZoneScore :: "location \<Rightarrow> highRiskZone list \<Rightarrow> real" where
  "calculateHighRiskZoneScore currentLocation zones = zoneLoop currentLocation zones 0"

definition calculateLocationDisabledScore :: "bool \<Rightarrow> location option \<Rightarrow> real \<Rightarrow> real" where
  "calculateLocationDisabledScore locationEnabled lastKnownLocation timeSinceLastUpdate =
     (if locationEnabled \<and> timeSinceLastUpdate < 30000 then 0
      else if \<not> locationEnabled then 1
      else if 60000 < timeSinceLastUpdate then 0.8
      else if 30000 < timeSinceLastUpdate then 0.4
      else 0)"

section \<open>Threat assessment (safety-engine)\<close>

text \<open>The threshold chain of \<open>assessThreat\<close>, as a function of the score.\<close>

definition threatLevelAction :: "real \<Rightarrow> threat_level \<times> threat_action" where
  "threatLevelAction s =
     (if EMERGENCY_ESCALATION \<le> s then (Critical, EmergencyEscalation)
      else if SILENT_DISPATCH \<le> s then (High, SilentDispatch)
      else if SOFT_ALERT \<le> s then (Medium, Log)
      else if 0.2 < s then (Low, NoAction)
      else (Safe, NoAction))"

definition assessThreat ::
  "real \<Rightarrow> location option \<Rightarrow> route \<Rightarrow> location list \<Rightarrow> deviationPoint list \<Rightarrow>
   highRiskZone list \<Rightarrow> bool \<Rightarrow> real \<Rightarrow> threatAssessment" where
  "assessThreat now currentLocation confirmedRoute locationHistory deviationHistory
     zones locationEnabled lastUpdateTime =
     (let timeSinceLastUpdate = now - lastUpdateTime;
          fs = \<lparr>routeDeviation =
                   (case currentLocation of
                      Some loc \<Rightarrow>
                        calculateRouteDeviationScore now loc confirmedRoute deviationHistory
                    | None \<Rightarrow> 0.5),
                 suspiciousStops = calculateSuspiciousStopsScore locationHistory,
                 highRiskZone =
                   (case currentLocation of
                      Some loc \<Rightarrow> calculateHighRiskZoneScore loc zones
                    | None \<Rightarrow> 0),
                 locationDisabled =
                   calculateLocationDisabledScore locationEnabled currentLocation
                     timeSinceLastUpdate\<rparr>;
          sc = routeDeviation fs * ROUTE_DEVIATION +
               suspiciousStops fs * SUSPICIOUS_STOPS +
               highRiskZone fs * HIGH_RISK_ZONE +
               locationDisabled fs * LOCATION_DISABLED;
          la = threatLevelAction sc
      in \<lparr>ta_timestamp = now, score = sc, factors = fs, level = fst la, action = snd la\<rparr>)"

section \<open>Community report validation (safety-engine)\<close>

record validation =
  valid :: bool
  weight :: real
  reason :: "string option"

definition validateCommunityReport ::
  "real \<Rightarrow> communityReport \<Rightarrow> communityReport list \<Rightarrow> validation" where
  "validateCommunityReport now report existingReports =
     (if reporterTrustScore report < MIN_TRUST_SCORE then
        \<lparr>valid = False, weight = 0, reason = Some ''Reporter trust score too low''\<rparr>
      else
        (let sameReporterRecent =
               filter (\<lambda>r. reporterId r = reporterId report \<and>
                            now - report_timestamp r < 86400000) existingReports
         in if 5 < length sameReporterRecent then
              \<lparr>valid = False, weight = 0, reason = Some ''Suspicious reporting frequency''\<rparr>
            else
              (let reportsInSameArea =
                     filter (\<lambda>r. calculateDistance (report_location r)
                                    (report_location report) < 500) existingReports;
                   recentAreaReports =
                     filter (\<lambda>r. now - report_timestamp r < 3600000) reportsInSameArea
               in if 10 < length recentAreaReports then
                    \<lparr>valid = False, weight = 0,
                     reason = Some ''Possible coordinated manipulation''\<rparr>
                  else
                    (let ageInDays = (now - report_timestamp report) / 86400000;
                         decayFactor = max 0 (1 - ageInDays / DECAY_DAYS);
                         consensusReports =
                           filter (\<lambda>r. report_type r = report_type report \<and> isVerified r)
                             reportsInSameArea;
                         hasConsensus = (MIN_CONSENSUS \<le> length consensusReports);
                         w = (if hasConsensus
                              then MAX_WEIGHT * decayFactor * reporterTrustScore report
                              else MAX_WEIGHT * 0.3 * decayFactor * reporterTrustScore report)
                     in \<lparr>valid = True, weight = w, reason = None\<rparr>))))"

section \<open>Sessions, contacts and dispatch records (safety-types)\<close>

record vehicleInfo =
  licensePlate :: string
  driverName :: string
  vehicleModel :: string
  vehicleColor :: string

record emergencyContact =
  contact_id :: string
  name :: string
  phone :: string
  email :: string
  relationship :: string
  notified :: bool
  notifiedAt :: "real option"

datatype session_status = Setup | Active | Completed | Emergency | Cancelled

record rideSession =
  session_id :: string
  userId :: string
  ride_source :: location
  destination :: location
  confirmedRoute :: route
  alternativeRoutes :: "route list"
  startTime :: real
  status :: session_status
  locationHistory :: "location list"
  threatHistory :: "threatAssessment list"
  emergencyContacts :: "emergencyContact list"
  vehicleInfo :: "vehicleInfo option"

record evidencePacket =
  ep_sessionId :: string
  ep_timestamp :: real
  gpsHistory :: "location list"
  deviationPoints :: "deviationPoint list"
  threatAssessments :: "threatAssessment list"
  escalationReason :: string
  ep_vehicleInfo :: "vehicleInfo option"
  emergencyContactsNotified :: "emergencyContact list"

record silentDispatch =
  dispatch_id :: string
  sd_sessionId :: string
  triggeredAt :: real
  threatScore :: real
  lastKnownLocation :: "location option"
  liveUpdates :: "location list"
  emergencyServicesNotified :: bool
  contactsNotified :: "string list"
  sd_evidencePacket :: evidencePacket

section \<open>The monitoring API (route handler of the monitor endpoint)\<close>

text \<open>
  What a request takes from outside the program: the clock (one reading of
  \<open>Date.now()\<close> per request), the generated dispatch id, the answer of the email service to
  the \<open>k\<close>-th \<open>sendAlertEmail\<close> call of the request, the number formatting
  \<open>toFixed(2)\<close>, and the zone table \<open>mockHighRiskZones\<close>.
\<close>

datatype email_result = Delivered | Failed string

record env =
  env_now :: real
  env_dispatchId :: string
  env_emailResults :: "nat \<Rightarrow> email_result"
  env_toFixed :: "real \<Rightarrow> string"
  env_zones :: "highRiskZone list"

text \<open>
  The three module-level maps. An entry holds a copy of the stored value; where the
  source stores one session object under two keys, the handlers below write both.
  A stored dispatch is the snapshot taken when it is stored.
\<close>

record monitor_state =
  rideSessions :: "string \<rightharpoonup> rideSession"
  silentDispatches :: "string \<rightharpoonup> silentDispatch"
  deviationHistories :: "string \<rightharpoonup> deviationPoint list"

datatype api_error = NotFound string | BadRequest string | UncaughtTypeError

record escalation =
  esc_dispatchId :: string
  esc_actions :: "string list"
  esc_evidencePacket :: evidencePacket

text \<open>
  The loop of \<open>handleEscalation\<close> over \<open>session.emergencyContacts\<close>. Its state: the
  contacts already visited (as the loop leaves them), the action log, the packet's
  \<open>emergencyContactsNotified\<close>, the calls of \<open>sendAlertEmail\<close> made so far, each with
  the position of its contact in the array and the answer, and whether
  \<open>sendAlertEmail\<close> has thrown. \<open>sendAlertEmail\<close> reads \<open>location.lat\<close> before it
  sends anything, so it throws a \<open>TypeError\<close> when the location is undefined; the
  exception leaves the loop and the contacts not yet visited stay as they are.
\<close>

record notify_state =
  ns_contacts :: "emergencyContact list"
  ns_actions :: "string list"
  ns_notified :: "emergencyContact list"
  ns_calls :: "(nat \<times> email_result) list"
  ns_thrown :: bool

fun notifyLoop ::
  "env \<Rightarrow> location option \<Rightarrow> emergencyContact list \<Rightarrow> notify_state \<Rightarrow> notify_state" where
  "notifyLoop e loc [] st = st"
| "notifyLoop e loc (contact # rest) st =
     (if \<not> notified contact \<and> email contact \<noteq> [] then
        (case loc of
           None \<Rightarrow> st\<lparr>ns_contacts := ns_contacts st @ contact # rest, ns_thrown := True\<rparr>
         | Some l \<Rightarrow>
             (case env_emailResults e (length (ns_calls st)) of
                Delivered \<Rightarrow>
                  (let contact' = contact\<lparr>notified := True, notifiedAt := Some (env_now e)\<rparr>
                   in notifyLoop e loc rest
                        \<lparr>ns_contacts = ns_contacts st @ [contact'],
                         ns_actions = ns_actions st @
                           [''EMAIL_SENT: '' @ name contact @ '' ('' @ email contact @ '')''],
                         ns_notified = ns_notified st @ [contact'],
                         ns_calls = ns_calls st @ [(length (ns_contacts st), Delivered)],
                         ns_thrown = False\<rparr>)
              | Failed err \<Rightarrow>
                  notifyLoop e loc rest
                    \<lparr>ns_contacts = ns_contacts st @ [contact],
                     ns_actions = ns_actions st @
                       [''EMAIL_FAILED: '' @ name contact @ '' - '' @ err],
                     ns_notified = ns_notified st,
                     ns_calls = ns_calls st @ [(length (ns_contacts st), Failed err)],
                     ns_thrown = False\<rparr>))
      else notifyLoop e loc rest (st\<lparr>ns_contacts := ns_contacts st @ [contact]\<rparr>))"

definition levelName :: "threat_level \<Rightarrow> string" where
  "levelName l =
     (case l of Safe \<Rightarrow> ''safe'' | Low \<Rightarrow> ''low'' | Medium \<Rightarrow> ''medium''
      | High \<Rightarrow> ''high'' | Critical \<Rightarrow> ''critical'')"

text \<open>
  One run of \<open>handleEscalation\<close>: the state and the session object as the run leaves
  them, the \<open>sendAlertEmail\<close> calls it made, and what it returns (\<open>Inl\<close>: the exception
  of \<open>sendAlertEmail\<close>, which ends the run before the dispatch is stored and the status
  is set).
\<close>

record escalation_run =
  run_state :: monitor_state
  run_session :: rideSession
  run_calls :: "(nat \<times> email_result) list"
  run_result :: "api_error + escalation"

definition handleEscalation ::
  "env \<Rightarrow> monitor_state \<Rightarrow> rideSession \<Rightarrow> threatAssessment \<Rightarrow> location option \<Rightarrow>
   escalation_run" where
  "handleEscalation e st session threatAssessment currentLocation =
     (let dispatchId = env_dispatchId e;
          alertLocation =
            (case currentLocation of
               Some l \<Rightarrow> Some l
             | None \<Rightarrow>
                 (if locationHistory session = [] then None
                  else Some (last (locationHistory session))));
          escalates = (action threatAssessment = SilentDispatch \<or>
                       action threatAssessment = EmergencyEscalation);
          loop =
            (if escalates then
               notifyLoop e alertLocation (emergencyContacts session)
                 \<lparr>ns_contacts = [], ns_actions = [''LIVE_LOCATION_TRACKING_STARTED''],
                  ns_notified = [], ns_calls = [], ns_thrown = False\<rparr>
             else
               \<lparr>ns_contacts = emergencyContacts session, ns_actions = [], ns_notified = [],
                ns_calls = [], ns_thrown = False\<rparr>);
          session1 = session\<lparr>emergencyContacts := ns_contacts loop\<rparr>
      in if ns_thrown loop then
           \<lparr>run_state = st, run_session = session1, run_calls = ns_calls loop,
            run_result = Inl UncaughtTypeError\<rparr>
         else
           (let actions =
                  (if action threatAssessment = EmergencyEscalation
                   then ns_actions loop @ [''EMERGENCY_SERVICES_112_NOTIFIED'']
                   else ns_actions loop);
                packet =
                  \<lparr>ep_sessionId = session_id session, ep_timestamp = env_now e,
                   gpsHistory = locationHistory session,
                   deviationPoints =
                     (case deviationHistories st (session_id session) of
                        None \<Rightarrow> [] | Some d \<Rightarrow> d),
                   threatAssessments = threatHistory session,
                   escalationReason =
                     ''Threat level: '' @ levelName (level threatAssessment) @ '', Score: '' @
                       env_toFixed e (score threatAssessment),
                   ep_vehicleInfo = vehicleInfo session,
                   emergencyContactsNotified = ns_notified loop\<rparr>;
                dispatch =
                  \<lparr>dispatch_id = dispatchId, sd_sessionId = session_id session,
                   triggeredAt = env_now e, threatScore = score threatAssessment,
                   lastKnownLocation = alertLocation,
                   liveUpdates = (case currentLocation of Some l \<Rightarrow> [l] | None \<Rightarrow> []),
                   emergencyServicesNotified =
                     (action threatAssessment = EmergencyEscalation),
                   contactsNotified = map contact_id (filter notified (ns_contacts loop)),
                   sd_evidencePacket = packet\<rparr>;
                session2 = session1\<lparr>status := Emergency\<rparr>
            in \<lparr>run_state =
                  st\<lparr>silentDispatches := (silentDispatches st)(dispatchId \<mapsto> dispatch),
                     rideSessions := (rideSessions st)(session_id session \<mapsto> session2)\<rparr>,
                run_session = session2, run_calls = ns_calls loop,
                run_result =
                  Inr \<lparr>esc_dispatchId = dispatchId, esc_actions = actions,
                       esc_evidencePacket = packet\<rparr>\<rparr>))"

text \<open>
  Requests. A body is well typed: the fields the handler reads without a test are
  there. \<open>session\<close> is the snapshot a client may send along; \<open>location\<close> of
  \<open>update-location\<close> is spread into the new sample.
\<close>

record locationInput =
  in_lat :: real
  in_lng :: real
  in_accuracy :: "real option"
  in_source :: "location_source option"

datatype monitor_request =
    UpdateLocation string locationInput "bool option" "rideSession option"
  | LocationDisabled string "location option" "rideSession option"
  | NetworkLoss string "location option" real "rideSession option"
  | ManualEmergency string "location option" "rideSession option"
  | ForceThreatLevel string "location option" real "rideSession option"
  | InvalidAction

record sessionView =
  view_id :: string
  view_status :: session_status
  view_locationHistory :: "location list"
  view_threatHistory :: "threatAssessment list"

text \<open>The data of the JSON answers; their constant texts are left out.\<close>

datatype monitor_response =
    LocationUpdated threatAssessment jsdist bool "escalation option" sessionView
  | LocationDisabledDone threatAssessment "escalation option"
  | NetworkLossDone threatAssessment real
  | ManualEmergencyDone threatAssessment escalation
  | ForcedThreatDone threatAssessment "escalation option"

record monitor_outcome =
  out_state :: monitor_state
  out_calls :: "(nat \<times> email_result) list"
  out_response :: "api_error + monitor_response"

definition findSession :: "monitor_state \<Rightarrow> string \<Rightarrow> rideSession option \<Rightarrow> rideSession option" where
  "findSession st sessionId clientSession =
     (case clientSession of Some s \<Rightarrow> Some s | None \<Rightarrow> rideSessions st sessionId)"

definition notFound :: "monitor_state \<Rightarrow> monitor_outcome" where
  "notFound st =
     \<lparr>out_state = st, out_calls = [], out_response = Inl (NotFound ''Session not found'')\<rparr>"

text \<open>\<open>xs.slice(-n)\<close>: the last \<open>n\<close> elements.\<close>

definition keepLast :: "nat \<Rightarrow> 'a list \<Rightarrow> 'a list" where
  "keepLast n xs = drop (length xs - n) xs"

fun gt_dist :: "jsdist \<Rightarrow> real \<Rightarrow> bool" where
  "gt_dist Infinity r = True"
| "gt_dist (Finite d) r = (r < d)"

text \<open>The deviation bookkeeping of \<open>update-location\<close>, before the ten-minute filter.\<close>

definition recordDeviation ::
  "real \<Rightarrow> location \<Rightarrow> jsdist \<Rightarrow> deviationPoint list \<Rightarrow> deviationPoint list" where
  "recordDeviation now currentLocation offRoute deviationHistory =
     (if gt_dist offRoute 100 then
        (if deviationHistory \<noteq> [] \<and>
            now - dp_timestamp (last deviationHistory) < LOCATION_UPDATE_INTERVAL * 2
         then
           butlast deviationHistory @
             [(last deviationHistory)
                \<lparr>duration := now - (dp_timestamp (last deviationHistory) -
                                       duration (last deviationHistory)),
                 dp_distanceFromRoute := offRoute\<rparr>]
         else
           deviationHistory @
             [\<lparr>dp_location = currentLocation, dp_distanceFromRoute = offRoute, duration = 0,
               dp_timestamp = now\<rparr>])
      else deviationHistory)"

text \<open>
  After \<open>handleEscalation\<close>: the entry that the handler stored under the request's
  \<open>sessionId\<close> is the session object the run has changed.
\<close>

definition afterEscalation :: "string \<Rightarrow> escalation_run \<Rightarrow> monitor_state" where
  "afterEscalation sessionId run =
     (run_state run)\<lparr>rideSessions := (rideSessions (run_state run))(sessionId \<mapsto> run_session run)\<rparr>"

definition updateLocation ::
  "env \<Rightarrow> monitor_state \<Rightarrow> string \<Rightarrow> locationInput \<Rightarrow> bool option \<Rightarrow> rideSession option \<Rightarrow>
   monitor_outcome" where
  "updateLocation e st sessionId loc locationEnabled clientSession =
     (case findSession st sessionId clientSession of
        None \<Rightarrow> notFound st
      | Some session \<Rightarrow>
          (let enabled = (case locationEnabled of None \<Rightarrow> True | Some b \<Rightarrow> b);
               currentLocation =
                 \<lparr>lat = in_lat loc, lng = in_lng loc, timestamp = env_now e,
                  accuracy = in_accuracy loc,
                  source = (case in_source loc of None \<Rightarrow> Gps | Some s \<Rightarrow> s)\<rparr>;
               pushed = locationHistory session @ [currentLocation];
               history = (if 100 < length pushed then keepLast 100 pushed else pushed);
               session1 = session\<lparr>locationHistory := history\<rparr>;
               distanceFromConfirmedRoute =
                 distanceFromRoute currentLocation (confirmedRoute session1);
               deviationHistory =
                 filter (\<lambda>d. env_now e - dp_timestamp d < 600000)
                   (recordDeviation (env_now e) currentLocation distanceFromConfirmedRoute
                      (case deviationHistories st sessionId of None \<Rightarrow> [] | Some d \<Rightarrow> d));
               st1 = st\<lparr>deviationHistories := (deviationHistories st)(sessionId \<mapsto> deviationHistory)\<rparr>;
               lastUpdateTime =
                 (if 1 < length history then timestamp (history ! (length history - 2))
                  else startTime session1);
               threatAssessment =
                 assessThreat (env_now e) (Some currentLocation) (confirmedRoute session1)
                   history deviationHistory (env_zones e) enabled lastUpdateTime;
               threats = threatHistory session1 @ [threatAssessment];
               session2 =
                 session1\<lparr>threatHistory :=
                            (if 50 < length threats then keepLast 50 threats else threats)\<rparr>;
               st2 = st1\<lparr>rideSessions := (rideSessions st1)(sessionId \<mapsto> session2)\<rparr>;
               view = (\<lambda>s. \<lparr>view_id = session_id s, view_status = status s,
                             view_locationHistory = keepLast 10 (locationHistory s),
                             view_threatHistory = keepLast 5 (threatHistory s)\<rparr>)
           in if action threatAssessment = SilentDispatch \<or>
                 action threatAssessment = EmergencyEscalation
              then
                (let run = handleEscalation e st2 session2 threatAssessment (Some currentLocation)
                 in \<lparr>out_state = afterEscalation sessionId run, out_calls = run_calls run,
                     out_response =
                       (case run_result run of
                          Inl err \<Rightarrow> Inl err
                        | Inr esc \<Rightarrow>
                            Inr (LocationUpdated threatAssessment distanceFromConfirmedRoute
                                   (gt_dist distanceFromConfirmedRoute 100) (Some esc)
                                   (view (run_session run))))\<rparr>)
              else
                \<lparr>out_state = st2, out_calls = [],
                 out_response =
                   Inr (LocationUpdated threatAssessment distanceFromConfirmedRoute
                          (gt_dist distanceFromConfirmedRoute 100) None (view session2))\<rparr>))"

definition locationDisabled' ::
  "env \<Rightarrow> monitor_state \<Rightarrow> string \<Rightarrow> location option \<Rightarrow> rideSession option \<Rightarrow> monitor_outcome" where
  "locationDisabled' e st sessionId lastKnown clientSession =
     (case findSession st sessionId clientSession of
        None \<Rightarrow> notFound st
      | Some session \<Rightarrow>
          (let session1 =
                 (case lastKnown of
                    None \<Rightarrow> session
                  | Some l \<Rightarrow>
                      session\<lparr>locationHistory :=
                                locationHistory session @
                                  [l\<lparr>timestamp := env_now e, source := LastKnown\<rparr>]\<rparr>);
               deviationHistory =
                 (case deviationHistories st sessionId of None \<Rightarrow> [] | Some d \<Rightarrow> d);
               threatAssessment =
                 assessThreat (env_now e) lastKnown (confirmedRoute session1)
                   (locationHistory session1) deviationHistory (env_zones e) False
                   (env_now e - 60000);
               session2 = session1\<lparr>threatHistory := threatHistory session1 @ [threatAssessment]\<rparr>;
               st1 = st\<lparr>rideSessions := (rideSessions st)(sessionId \<mapsto> session2)\<rparr>
           in if 0.4 \<le> score threatAssessment then
                (let run = handleEscalation e st1 session2 threatAssessment lastKnown
                 in \<lparr>out_state = afterEscalation sessionId run, out_calls = run_calls run,
                     out_response =
                       (case run_result run of
                          Inl err \<Rightarrow> Inl err
                        | Inr esc \<Rightarrow> Inr (LocationDisabledDone threatAssessment (Some esc)))\<rparr>)
              else
                \<lparr>out_state = st1, out_calls = [],
                 out_response = Inr (LocationDisabledDone threatAssessment None)\<rparr>))"

definition networkLoss ::
  "env \<Rightarrow> monitor_state \<Rightarrow> string \<Rightarrow> location option \<Rightarrow> real \<Rightarrow> rideSession option \<Rightarrow>
   monitor_outcome" where
  "networkLoss e st sessionId lastKnown lossDuration clientSession =
     (case findSession st sessionId clientSession of
        None \<Rightarrow> notFound st
      | Some session \<Rightarrow>
          (let networkLossThreat = min (lossDuration / 300000) 1;
               deviationHistory =
                 (case deviationHistories st sessionId of None \<Rightarrow> [] | Some d \<Rightarrow> d);
               assessed =
                 assessThreat (env_now e) lastKnown (confirmedRoute session)
                   (locationHistory session) deviationHistory (env_zones e) True
                   (env_now e - lossDuration);
               threatAssessment =
                 assessed\<lparr>score := min (score assessed + networkLossThreat * 0.2) 1\<rparr>;
               session1 = session\<lparr>threatHistory := threatHistory session @ [threatAssessment]\<rparr>
           in \<lparr>out_state = st\<lparr>rideSessions := (rideSessions st)(sessionId \<mapsto> session1)\<rparr>,
               out_calls = [],
               out_response = Inr (NetworkLossDone threatAssessment lossDuration)\<rparr>))"

definition manualEmergency ::
  "env \<Rightarrow> monitor_state \<Rightarrow> string \<Rightarrow> location option \<Rightarrow> rideSession option \<Rightarrow> monitor_outcome" where
  "manualEmergency e st sessionId loc clientSession =
     (case findSession st sessionId clientSession of
        None \<Rightarrow> notFound st
      | Some session \<Rightarrow>
          (let session1 = session\<lparr>status := Emergency\<rparr>;
               st1 = st\<lparr>rideSessions := (rideSessions st)(sessionId \<mapsto> session1)\<rparr>;
               manualThreat =
                 \<lparr>ta_timestamp = env_now e, score = 1,
                  factors = \<lparr>routeDeviation = 0, suspiciousStops = 0, highRiskZone = 0,
                             locationDisabled = 0\<rparr>,
                  level = Critical, action = EmergencyEscalation\<rparr>;
               run = handleEscalation e st1 session1 manualThreat loc
           in \<lparr>out_state = afterEscalation sessionId run, out_calls = run_calls run,
               out_response =
                 (case run_result run of
                    Inl err \<Rightarrow> Inl err
                  | Inr esc \<Rightarrow> Inr (ManualEmergencyDone manualThreat esc))\<rparr>))"

text \<open>The threshold chain of \<open>force-threat-level\<close>, as a function of the forced score.\<close>

definition forcedLevelAction :: "real \<Rightarrow> threat_level \<times> threat_action" where
  "forcedLevelAction forcedScore =
     (if forcedScore < 0.2 then (Safe, NoAction)
      else if forcedScore < 0.4 then (Low, NoAction)
      else if forcedScore < 0.7 then (Medium, Log)
      else if forcedScore < 0.9 then (High, SilentDispatch)
      else (Critical, EmergencyEscalation))"

definition forcedThreat :: "real \<Rightarrow> real \<Rightarrow> threatAssessment" where
  "forcedThreat now forcedScore =
     \<lparr>ta_timestamp = now, score = forcedScore,
      factors = \<lparr>routeDeviation = forcedScore * 0.4, suspiciousStops = forcedScore * 0.3,
                 highRiskZone = forcedScore * 0.2, locationDisabled = forcedScore * 0.1\<rparr>,
      level = fst (forcedLevelAction forcedScore),
      action = snd (forcedLevelAction forcedScore)\<rparr>"

definition forceThreatLevel ::
  "env \<Rightarrow> monitor_state \<Rightarrow> string \<Rightarrow> location option \<Rightarrow> real \<Rightarrow> rideSession option \<Rightarrow>
   monitor_outcome" where
  "forceThreatLevel e st sessionId loc forcedScore clientSession =
     (case findSession st sessionId clientSession of
        None \<Rightarrow> notFound st
      | Some session \<Rightarrow>
          (let forced = forcedThreat (env_now e) forcedScore;
               session1 = session\<lparr>threatHistory := threatHistory session @ [forced]\<rparr>;
               session2 = (if 0.9 \<le> forcedScore then session1\<lparr>status := Emergency\<rparr> else session1);
               st1 = st\<lparr>rideSessions := (rideSessions st)(sessionId \<mapsto> session2)\<rparr>
           in if action forced = SilentDispatch \<or> action forced = EmergencyEscalation then
                (let run = handleEscalation e st1 session2 forced loc
                 in \<lparr>out_state = afterEscalation sessionId run, out_calls = run_calls run,
                     out_response =
                       (case run_result run of
                          Inl err \<Rightarrow> Inl err
                        | Inr esc \<Rightarrow> Inr (ForcedThreatDone forced (Some esc)))\<rparr>)
              else
                \<lparr>out_state = st1, out_calls = [],
                 out_response = Inr (ForcedThreatDone forced None)\<rparr>))"

definition monitorPOST :: "env \<Rightarrow> monitor_state \<Rightarrow> monitor_request \<Rightarrow> monitor_outcome" where
  "monitorPOST e st request =
     (case request of
        UpdateLocation sessionId loc locationEnabled clientSession \<Rightarrow>
          updateLocation e st sessionId loc locationEnabled clientSession
      | LocationDisabled sessionId lastKnown clientSession \<Rightarrow>
          locationDisabled' e st sessionId lastKnown clientSession
      | NetworkLoss sessionId lastKnown lossDuration clientSession \<Rightarrow>
          networkLoss e st sessionId lastKnown lossDuration clientSession
      | ManualEmergency sessionId loc clientSession \<Rightarrow>
          manualEmergency e st sessionId loc clientSession
      | ForceThreatLevel sessionId loc forcedScore clientSession \<Rightarrow>
          forceThreatLevel e st sessionId loc forcedScore clientSession
      | InvalidAction \<Rightarrow>
          \<lparr>out_state = st, out_calls = [], out_response = Inl (BadRequest ''Invalid action'')\<rparr>)"

definition requestSessionId :: "monitor_request \<Rightarrow> string option" where
  "requestSessionId request =
     (case request of
        UpdateLocation sessionId loc locationEnabled clientSession \<Rightarrow> Some sessionId
      | LocationDisabled sessionId lastKnown clientSession \<Rightarrow> Some sessionId
      | NetworkLoss sessionId lastKnown lossDuration clientSession \<Rightarrow> Some sessionId
      | ManualEmergency sessionId loc clientSession \<Rightarrow> Some sessionId
      | ForceThreatLevel sessionId loc forcedScore clientSession \<Rightarrow> Some sessionId
      | InvalidAction \<Rightarrow> None)"

definition requestClientSession :: "monitor_request \<Rightarrow> rideSession option" where
  "requestClientSession request =
     (case request of
        UpdateLocation sessionId loc locationEnabled clientSession \<Rightarrow> clientSession
      | LocationDisabled sessionId lastKnown clientSession \<Rightarrow> clientSession
      | NetworkLoss sessionId lastKnown lossDuration clientSession \<Rightarrow> clientSession
      | ManualEmergency sessionId loc clientSession \<Rightarrow> clientSession
      | ForceThreatLevel sessionId loc forcedScore clientSession \<Rightarrow> clientSession
      | InvalidAction \<Rightarrow> None)"

section \<open>The ride API (route handler of the ride endpoint)\<close>

text \<open>
  The ride endpoint keeps its own map of sessions, in which every session is stored
  under its own id. The handlers that work on a stored session are modelled;
  \<open>create\<close>, which asks the routing service for routes and stores a new session in
  status \<open>setup\<close>, is not.
\<close>

datatype ride_request =
    ConfirmRoute string string
  | GetSession string
  | EndRide string "string option"
  | InvalidRideAction

datatype ride_response =
    RouteConfirmed string session_status route real
  | SessionFound rideSession
  | RideEnded string session_status

definition ridePOST ::
  "(string \<rightharpoonup> rideSession) \<Rightarrow> ride_request \<Rightarrow>
   (string \<rightharpoonup> rideSession) \<times> (api_error + ride_response)" where
  "ridePOST sessions request =
     (case request of
        ConfirmRoute sessionId routeId \<Rightarrow>
          (case sessions sessionId of
             None \<Rightarrow> (sessions, Inl (NotFound ''Session not found''))
           | Some session \<Rightarrow>
               (case find (\<lambda>r. route_id r = routeId) (alternativeRoutes session) of
                  None \<Rightarrow> (sessions, Inl (NotFound ''Route not found''))
                | Some selectedRoute \<Rightarrow>
                    (let session1 = session\<lparr>confirmedRoute := selectedRoute, status := Active\<rparr>
                     in (sessions(sessionId \<mapsto> session1),
                         Inr (RouteConfirmed (session_id session1) (status session1)
                                (confirmedRoute session1) (startTime session1))))))
      | GetSession sessionId \<Rightarrow>
          (case sessions sessionId of
             None \<Rightarrow> (sessions, Inl (NotFound ''Session not found''))
           | Some session \<Rightarrow> (sessions, Inr (SessionFound session)))
      | EndRide sessionId given \<Rightarrow>
          (case sessions sessionId of
             None \<Rightarrow> (sessions, Inl (NotFound ''Session not found''))
           | Some session \<Rightarrow>
               (let why = (case given of None \<Rightarrow> ''completed'' | Some r \<Rightarrow> r);
                    session1 =
                      session\<lparr>status := (if why = ''emergency'' then Emergency else Completed)\<rparr>
                in (sessions(sessionId \<mapsto> session1),
                    Inr (RideEnded (session_id session1) (status session1)))))
      | InvalidRideAction \<Rightarrow> (sessions, Inl (BadRequest ''Invalid action'')))"

section \<open>The specification's descriptions\<close>

text \<open>
  The suspicious stops factor as the specification words it. Each consecutive pair of the
  history is stopped or not (speed below 1 m/s, the speed being the one the engine
  computes) and has a time difference; \<open>stopRuns\<close> cuts the pairs at every pair that is not
  stopped and gives the time differences of each maximal run of stopped pairs, the run
  still open at the end of the history included; a run qualifies when its accumulated
  duration exceeds 60000 ms.
\<close>

definition pairStops :: "location list \<Rightarrow> (bool \<times> real) list" where
  "pairStops h =
     map (\<lambda>(previous, current).
            (speedBelowOne (pairSpeed previous current), timestamp current - timestamp previous))
       (zip h (tl h))"

fun stopRuns :: "(bool \<times> real) list \<Rightarrow> real list list" where
  "stopRuns [] = [] # []"
| "stopRuns ((stopped, d) # rest) =
     (if stopped then
        (case stopRuns rest of [] \<Rightarrow> [d] # [] | run # runs \<Rightarrow> (d # run) # runs)
      else [] # stopRuns rest)"

definition qualifyingStops :: "location list \<Rightarrow> nat" where
  "qualifyingStops h = length (filter (\<lambda>run. 60000 < sum_list run) (stopRuns (pairStops h)))"

definition spec_suspiciousStopsScore :: "location list \<Rightarrow> real" where
  "spec_suspiciousStopsScore h = min (real (qualifyingStops h) / 3) 1"

text \<open>
  The quantities of the three rejection rules and of the weight of
  \<open>validateCommunityReport\<close>, as the specification words them.
\<close>

definition sameReporterLast24h :: "real \<Rightarrow> communityReport \<Rightarrow> communityReport list \<Rightarrow> nat" where
  "sameReporterLast24h now report existingReports =
     length (filter (\<lambda>r. reporterId r = reporterId report \<and>
                          now - report_timestamp r < 86400000) existingReports)"

definition within500mLastHour :: "real \<Rightarrow> communityReport \<Rightarrow> communityReport list \<Rightarrow> nat" where
  "within500mLastHour now report existingReports =
     length (filter (\<lambda>r. calculateDistance (report_location r) (report_location report) < 500 \<and>
                          now - report_timestamp r < 3600000) existingReports)"

definition verifiedSameTypeWithin500m :: "communityReport \<Rightarrow> communityReport list \<Rightarrow> nat" where
  "verifiedSameTypeWithin500m report existingReports =
     length (filter (\<lambda>r. calculateDistance (report_location r) (report_location report) < 500 \<and>
                          report_type r = report_type report \<and> isVerified r) existingReports)"

definition spec_decayFactor :: "real \<Rightarrow> communityReport \<Rightarrow> real" where
  "spec_decayFactor now report = max 0 (1 - ((now - report_timestamp report) / 86400000) / 30)"

definition rejected :: "string \<Rightarrow> validation" where
  "rejected why = \<lparr>valid = False, weight = 0, reason = Some why\<rparr>"

text \<open>
  The positions, in \<open>session.emergencyContacts\<close>, of the contacts for which a
  \<open>sendAlertEmail\<close> call of a run was answered with success.
\<close>

definition deliveredTo :: "(nat \<times> email_result) list \<Rightarrow> nat list" where
  "deliveredTo calls = map fst (filter (\<lambda>c. snd c = Delivered) calls)"

section \<open>Sample data\<close>

text \<open>Points on the meridian \<open>lng = 0\<close>, a two-waypoint route and a zone, for concrete runs.\<close>

definition meridianPoint :: "real \<Rightarrow> real \<Rightarrow> location" where
  "meridianPoint latitude t =
     \<lparr>lat = latitude, lng = 0, timestamp = t, accuracy = None, source = Gps\<rparr>"

definition samplePoint :: "real \<Rightarrow> real \<Rightarrow> location" where
  "samplePoint latitude longitude =
     \<lparr>lat = latitude, lng = longitude, timestamp = 0, accuracy = None, source = Gps\<rparr>"

text \<open>A route whose two waypoints are the same point, opposite \<open>(8, 0)\<close> on the globe.\<close>

definition antipodalRoute :: route where
  "antipodalRoute =
     \<lparr>route_id = ''route-1'', waypoints = [samplePoint (- 8) 180, samplePoint (- 8) 180],
      safetyScore = 0.5, distance = 0, estimatedDuration = 0, highRiskZones = []\<rparr>"

definition sampleRoute :: route where
  "sampleRoute =
     \<lparr>route_id = ''route-0'', waypoints = [meridianPoint 0 0, meridianPoint 0 0],
      safetyScore = 0.5, distance = 0, estimatedDuration = 0, highRiskZones = []\<rparr>"

definition sampleZone :: "real \<Rightarrow> real \<Rightarrow> highRiskZone" where
  "sampleZone latitude risk =
     \<lparr>zone_id = ''hrz-1'', center = meridianPoint latitude 0, radius = 500, riskLevel = risk,
      zone_reason = ''High incident reports'', reportCount = 15, lastReported = 0\<rparr>"

definition sampleDeviation :: "real \<Rightarrow> real \<Rightarrow> deviationPoint" where
  "sampleDeviation dur t =
     \<lparr>dp_location = meridianPoint 0 0, dp_distanceFromRoute = Finite 150, duration = dur,
      dp_timestamp = t\<rparr>"

definition sampleReport :: "string \<Rightarrow> real \<Rightarrow> real \<Rightarrow> communityReport" where
  "sampleReport reporter trust t =
     \<lparr>report_id = ''cr-1'', reporterId = reporter, reporterTrustScore = trust,
      report_location = meridianPoint 0 t, report_type = UnsafeArea,
      description = ''Dark alley'', report_timestamp = t, verificationCount = 5,
      isVerified = True\<rparr>"

definition sampleContact :: "string \<Rightarrow> string \<Rightarrow> bool \<Rightarrow> emergencyContact" where
  "sampleContact cid address done =
     \<lparr>contact_id = cid, name = ''Emergency Contact'', phone = ''+91-9876543210'',
      email = address, relationship = ''Friend'', notified = done, notifiedAt = None\<rparr>"

definition sampleSession :: "session_status \<Rightarrow> rideSession" where
  "sampleSession st =
     \<lparr>session_id = ''ride-1'', userId = ''user-001'', ride_source = meridianPoint 0 0,
      destination = meridianPoint 0 0, confirmedRoute = sampleRoute,
      alternativeRoutes = [sampleRoute], startTime = 0, status = st,
      locationHistory = [meridianPoint 0 0], threatHistory = [],
      emergencyContacts =
        [sampleContact ''ec-1'' ''contact1@example.com'' False,
         sampleContact ''ec-2'' ''contact2@example.com'' True,
         sampleContact ''ec-3'' [] False],
      vehicleInfo = None\<rparr>"

definition sampleEnv :: "real \<Rightarrow> env" where
  "sampleEnv t =
     \<lparr>env_now = t, env_dispatchId = ''dispatch-1'', env_emailResults = (\<lambda>k. Delivered),
      env_toFixed = (\<lambda>x. ''0.00''), env_zones = []\<rparr>"

definition sampleStore :: "session_status \<Rightarrow> monitor_state" where
  "sampleStore st =
     \<lparr>rideSessions = [''ride-1'' \<mapsto> sampleSession st], silentDispatches = Map.empty,
      deviationHistories = Map.empty\<rparr>"

text \<open>
  Two runs of \<open>handleEscalation\<close>, the second on the session the first has left: of the
  three sample contacts the first is to be notified, the second is already notified and
  the third has no email address.
\<close>

definition sampleFirstRun :: escalation_run where
  "sampleFirstRun =
     handleEscalation (sampleEnv 1000) (sampleStore Active) (sampleSession Active)
       (forcedThreat 1000 0.8) (Some (meridianPoint 0 1000))"

definition sampleSecondRun :: escalation_run where
  "sampleSecondRun =
     handleEscalation (sampleEnv 2000) (run_state sampleFirstRun) (run_session sampleFirstRun)
       (forcedThreat 2000 0.95) (Some (meridianPoint 0 2000))"

section \<open>Properties of the geometry\<close>

lemma sin_half_sq: "sin (x / 2) * sin (x / 2) = (1 - cos x) / (2::real)"
  using cos_double_sin [of "x / 2"] by (simp add: power2_eq_square)

lemma half_one_plus_cos: "0 \<le> (1 + cos (t::real)) / 2"
proof -
  have "- 1 \<le> cos t" by (rule cos_ge_minus_one)
  then have "0 \<le> 1 + cos t" by linarith
  then show ?thesis by simp
qed

lemma half_one_minus_cos: "(1 - cos (t::real)) / 2 \<le> 1"
proof -
  have "- 1 \<le> cos t" by (rule cos_ge_minus_one)
  then have "1 - cos t \<le> 2" by linarith
  then show ?thesis by simp
qed

lemma haversine_a_decomp:
  "haversine_a p q =
     (1 - sin ((lng q - lng p) * pi / 180 / 2) * sin ((lng q - lng p) * pi / 180 / 2))
       * ((1 - cos ((lat q - lat p) * pi / 180)) / 2)
     + (sin ((lng q - lng p) * pi / 180 / 2) * sin ((lng q - lng p) * pi / 180 / 2))
       * ((1 + cos (lat p * pi / 180 + lat q * pi / 180)) / 2)"
proof -
  define s where "s = sin ((lng q - lng p) * pi / 180 / 2) * sin ((lng q - lng p) * pi / 180 / 2)"
  define x where "x = lat p * pi / 180"
  define y where "y = lat q * pi / 180"
  have d: "(lat q - lat p) * pi / 180 = y - x"
    by (simp add: x_def y_def algebra_simps diff_divide_distrib)
  have cc: "cos x * cos y = (cos (y - x) + cos (x + y)) / 2"
    by (simp add: cos_diff cos_add)
  have "haversine_a p q = (1 - cos (y - x)) / 2 + cos x * cos y * s"
    unfolding haversine_a_def Let_def s_def x_def [symmetric] y_def [symmetric] d
    by (simp add: sin_half_sq algebra_simps)
  also have "\<dots> = (1 - s) * ((1 - cos (y - x)) / 2) + s * ((1 + cos (x + y)) / 2)"
    unfolding cc by (simp add: field_simps)
  finally show ?thesis
    unfolding s_def d x_def y_def .
qed

lemma haversine_a_nonneg: "0 \<le> haversine_a p q"
proof -
  define s where "s = sin ((lng q - lng p) * pi / 180 / 2) * sin ((lng q - lng p) * pi / 180 / 2)"
  have s0: "0 \<le> s" unfolding s_def by simp
  have s1: "s \<le> 1" unfolding s_def
    using abs_sin_le_one [of "(lng q - lng p) * pi / 180 / 2"]
    by (metis abs_mult_self_eq mult_le_one abs_ge_zero)
  have a: "0 \<le> (1 - cos ((lat q - lat p) * pi / 180)) / 2" by simp
  have b: "0 \<le> (1 + cos (lat p * pi / 180 + lat q * pi / 180)) / 2"
    by (rule half_one_plus_cos)
  have "0 \<le> (1 - s) * ((1 - cos ((lat q - lat p) * pi / 180)) / 2)
       + s * ((1 + cos (lat p * pi / 180 + lat q * pi / 180)) / 2)"
    using s0 s1 a b by (intro add_nonneg_nonneg mult_nonneg_nonneg) simp_all
  then show ?thesis
    unfolding haversine_a_decomp s_def .
qed

lemma haversine_a_le_one: "haversine_a p q \<le> 1"
proof -
  define s where "s = sin ((lng q - lng p) * pi / 180 / 2) * sin ((lng q - lng p) * pi / 180 / 2)"
  define u where "u = (1 - cos ((lat q - lat p) * pi / 180)) / 2"
  define v where "v = (1 + cos (lat p * pi / 180 + lat q * pi / 180)) / 2"
  have s0: "0 \<le> s" unfolding s_def by simp
  have s1: "s \<le> 1" unfolding s_def
    using abs_sin_le_one [of "(lng q - lng p) * pi / 180 / 2"]
    by (metis abs_mult_self_eq mult_le_one abs_ge_zero)
  have u1: "u \<le> 1" unfolding u_def
    by (rule half_one_minus_cos)
  have v1: "v \<le> 1" unfolding v_def by simp
  have "(1 - s) * u \<le> (1 - s) * 1" using s1 u1 by (intro mult_left_mono) simp_all
  moreover have "s * v \<le> s * 1" using s0 v1 by (intro mult_left_mono) simp_all
  ultimately have "(1 - s) * u + s * v \<le> 1" by simp
  then show ?thesis
    unfolding haversine_a_decomp s_def u_def v_def .
qed

lemma atan2_nonneg: "0 \<le> y \<Longrightarrow> 0 \<le> atan2 y x"
proof -
  assume y: "0 \<le> y"
  have lb: "- (pi / 2) < arctan (y / x)" by (rule arctan_lbound)
  have "0 < x \<Longrightarrow> 0 \<le> arctan (y / x)" using y by simp
  moreover have "0 \<le> arctan (y / x) + pi" using lb pi_gt_zero by linarith
  ultimately show ?thesis
    using y unfolding atan2_def by (auto simp: not_less)
qed

lemma calculateDistance_nonneg: "0 \<le> calculateDistance p q"
  unfolding calculateDistance_def Let_def
  using atan2_nonneg [of "sqrt (haversine_a p q)" "sqrt (1 - haversine_a p q)"]
    haversine_a_nonneg [of p q] by simp

lemma calculateDistance_same: "lat p = lat q \<Longrightarrow> lng p = lng q \<Longrightarrow> calculateDistance p q = 0"
  by (simp add: calculateDistance_def haversine_a_def atan2_def)

lemma sin_sq_abs: "sin (\<bar>t\<bar> * c) * sin (\<bar>t\<bar> * c) = sin (t * c) * sin (t * (c::real))"
  by (cases "0 \<le> t") (simp_all add: abs_if)

lemma calculateDistance_meridian:
  assumes lng: "lng p = lng q" and le: "\<bar>lat q - lat p\<bar> \<le> 180"
  shows "calculateDistance p q = 6371000 * (\<bar>lat q - lat p\<bar> * pi / 180)"
proof -
  define x where "x = \<bar>lat q - lat p\<bar> * pi / 360"
  have x0: "0 \<le> x" unfolding x_def by simp
  have "\<bar>lat q - lat p\<bar> * pi \<le> 180 * pi" using le by (simp add: mult_right_mono)
  then have x1: "x \<le> pi / 2" unfolding x_def by simp
  have sq: "sin ((lat q - lat p) * pi / 180 / 2) * sin ((lat q - lat p) * pi / 180 / 2) = sin x * sin x"
    using sin_sq_abs [of "lat q - lat p" "pi / 360"] by (simp add: x_def)
  have a: "haversine_a p q = sin x * sin x"
    unfolding haversine_a_def Let_def using lng sq by simp
  have sx: "0 \<le> sin x" using x0 x1 pi_gt_zero by (intro sin_ge_zero) linarith+
  have cx: "0 \<le> cos x" using x0 x1 pi_gt_zero by (intro cos_ge_zero) linarith+
  have s1: "sqrt (haversine_a p q) = sin x" using a sx by simp
  have "1 - sin x * sin x = cos x * cos x"
    using sin_cos_squared_add [of x] by (simp add: power2_eq_square algebra_simps)
  then have s2: "sqrt (1 - haversine_a p q) = cos x" using a cx by simp
  have at: "atan2 (sin x) (cos x) = x"
  proof (cases "x < pi / 2")
    case True
    then have "0 < cos x" using x0 pi_gt_zero by (intro cos_gt_zero_pi) linarith+
    moreover have "arctan (tan x) = x" using True x0 pi_gt_zero by (intro arctan_tan) linarith+
    ultimately show ?thesis by (simp add: atan2_def tan_def)
  next
    case False
    then have xe: "x = pi / 2" using x1 by simp
    show ?thesis unfolding xe by (simp add: atan2_def)
  qed
  show ?thesis
    unfolding calculateDistance_def Let_def s1 s2 at by (simp add: x_def)
qed

lemma foldl_duration_nonneg:
  "\<forall>d\<in>set ds. 0 \<le> duration d \<Longrightarrow> 0 \<le> acc \<Longrightarrow> 0 \<le> foldl (\<lambda>sum d. sum + duration d) acc ds"
  by (induction ds arbitrary: acc) auto

lemma calculateRouteDeviationScore_bounds:
  assumes "\<forall>d\<in>set dh. 0 \<le> duration d"
  shows "0 \<le> calculateRouteDeviationScore now loc rt dh \<and> calculateRouteDeviationScore now loc rt dh \<le> 1"
proof -
  have t: "0 \<le> foldl (\<lambda>sum d. sum + duration d) 0 (filter (\<lambda>d. now - dp_timestamp d < 300000) dh)"
    using assms by (intro foldl_duration_nonneg) auto
  show ?thesis
    unfolding calculateRouteDeviationScore_def Let_def SAFE_CORRIDOR_RADIUS_def
    using t by (cases "distanceFromRoute loc rt") (auto simp: min_def)
qed

lemma calculateSuspiciousStopsScore_bounds:
  "0 \<le> calculateSuspiciousStopsScore h \<and> calculateSuspiciousStopsScore h \<le> 1"
  unfolding calculateSuspiciousStopsScore_def Let_def by simp

lemma zoneLoop_bounds:
  "\<forall>z\<in>set zones. 0 \<le> riskLevel z \<and> riskLevel z \<le> 1 \<Longrightarrow> 0 \<le> m \<Longrightarrow> m \<le> 1 \<Longrightarrow>
   0 \<le> zoneLoop loc zones m \<and> zoneLoop loc zones m \<le> 1"
proof (induction zones arbitrary: m)
  case Nil
  then show ?case by simp
next
  case (Cons z zones)
  define d where "d = calculateDistance loc (center z)"
  define m' where "m' = (if d \<le> radius z then max m (riskLevel z)
            else if d \<le> radius z * 2 then max m (riskLevel z * (1 - (d - radius z) / radius z))
            else m)"
  have rl: "0 \<le> riskLevel z" "riskLevel z \<le> 1" using Cons.prems by auto
  have pf: "\<not> d \<le> radius z \<Longrightarrow> d \<le> radius z * 2 \<Longrightarrow>
      0 \<le> 1 - (d - radius z) / radius z \<and> 1 - (d - radius z) / radius z \<le> 1"
  proof -
    assume a: "\<not> d \<le> radius z" "d \<le> radius z * 2"
    then have r: "0 < radius z" by linarith
    have "(d - radius z) / radius z \<le> 1" using a r by (simp add: field_simps)
    moreover have "0 \<le> (d - radius z) / radius z" using a r by simp
    ultimately show ?thesis by simp
  qed
  have "0 \<le> m' \<and> m' \<le> 1"
    unfolding m'_def using Cons.prems(2,3) rl pf
    by (auto simp: max_def mult_le_one intro: mult_nonneg_nonneg)
  moreover have "zoneLoop loc (z # zones) m = zoneLoop loc zones m'"
    by (simp add: m'_def d_def Let_def)
  ultimately show ?case using Cons.IH [of m'] Cons.prems(1) by simp
qed

lemma calculateLocationDisabledScore_bounds:
  "0 \<le> calculateLocationDisabledScore e l t \<and> calculateLocationDisabledScore e l t \<le> 1"
  unfolding calculateLocationDisabledScore_def by simp

lemma weighted_sum_bounds:
  fixes a b c d :: real
  assumes "0 \<le> a" "a \<le> 1" "0 \<le> b" "b \<le> 1" "0 \<le> c" "c \<le> 1" "0 \<le> d" "d \<le> 1"
  shows "0 \<le> a * 0.4 + b * 0.3 + c * 0.2 + d * 0.1 \<and> a * 0.4 + b * 0.3 + c * 0.2 + d * 0.1 \<le> 1"
  using assms by simp


lemma meridian_distance:
  "\<bar>b - a\<bar> \<le> 180 \<Longrightarrow>
   calculateDistance (meridianPoint a s) (meridianPoint b t) = 6371000 * (\<bar>b - a\<bar> * pi / 180)"
  using calculateDistance_meridian [of "meridianPoint a s" "meridianPoint b t"]
  by (simp add: meridianPoint_def)

lemma segment_degenerate:
  "lat e = lat s \<Longrightarrow> lng e = lng s \<Longrightarrow>
   pointToLineSegmentDistance p s e = Some (calculateDistance p s)"
  by (simp add: pointToLineSegmentDistance_def Let_def calculateDistance_def haversine_a_def)

lemma distanceFromRoute_sampleRoute:
  "\<bar>a\<bar> \<le> 180 \<Longrightarrow>
   distanceFromRoute (meridianPoint a t) sampleRoute = Finite (6371000 * (\<bar>a\<bar> * pi / 180))"
  using meridian_distance [of 0 a t 0]
    calculateDistance_meridian [of "meridianPoint a t" "meridianPoint 0 0"]
  by (simp add: distanceFromRoute_def sampleRoute_def segment_degenerate meridianPoint_def)

section \<open>The threat score\<close>

text \<open>
  C1. For every call of \<open>assessThreat\<close> in which every high-risk zone has a risk level in
  \<open>[0, 1]\<close> and every deviation point has a non-negative duration, the returned score is
  \<open>0.4 * routeDeviation + 0.3 * suspiciousStops + 0.2 * highRiskZone + 0.1 * locationDisabled\<close>
  over the returned factors, and lies in \<open>[0, 1]\<close>.
\<close>

theorem assessThreat_score:
  assumes zones: "\<forall>z\<in>set zones. 0 \<le> riskLevel z \<and> riskLevel z \<le> 1"
    and devs: "\<forall>d\<in>set deviationHistory. 0 \<le> duration d"
  shows "score (assessThreat now currentLocation rt history deviationHistory
            zones locationEnabled lastUpdateTime) =
         0.4 * routeDeviation (factors (assessThreat now currentLocation rt
            history deviationHistory zones locationEnabled lastUpdateTime)) +
         0.3 * suspiciousStops (factors (assessThreat now currentLocation rt
            history deviationHistory zones locationEnabled lastUpdateTime)) +
         0.2 * highRiskZone (factors (assessThreat now currentLocation rt
            history deviationHistory zones locationEnabled lastUpdateTime)) +
         0.1 * locationDisabled (factors (assessThreat now currentLocation rt
            history deviationHistory zones locationEnabled lastUpdateTime)) \<and>
         0 \<le> score (assessThreat now currentLocation rt history
            deviationHistory zones locationEnabled lastUpdateTime) \<and>
         score (assessThreat now currentLocation rt history
            deviationHistory zones locationEnabled lastUpdateTime) \<le> 1"
proof -
  define rd where "rd = (case currentLocation of
      Some loc \<Rightarrow> calculateRouteDeviationScore now loc rt deviationHistory
    | None \<Rightarrow> 0.5)"
  define ss where "ss = calculateSuspiciousStopsScore history"
  define hz where "hz = (case currentLocation of
      Some loc \<Rightarrow> calculateHighRiskZoneScore loc zones | None \<Rightarrow> 0)"
  define ld where "ld = calculateLocationDisabledScore locationEnabled currentLocation
      (now - lastUpdateTime)"
  have rd: "0 \<le> rd \<and> rd \<le> 1"
    unfolding rd_def using calculateRouteDeviationScore_bounds [OF devs]
    by (cases currentLocation) auto
  have ss: "0 \<le> ss \<and> ss \<le> 1"
    unfolding ss_def by (rule calculateSuspiciousStopsScore_bounds)
  have hz: "0 \<le> hz \<and> hz \<le> 1"
    unfolding hz_def calculateHighRiskZoneScore_def using zoneLoop_bounds [OF zones, of 0]
    by (cases currentLocation) auto
  have ld: "0 \<le> ld \<and> ld \<le> 1"
    unfolding ld_def by (rule calculateLocationDisabledScore_bounds)
  have b: "0 \<le> rd * 0.4 + ss * 0.3 + hz * 0.2 + ld * 0.1 \<and> rd * 0.4 + ss * 0.3 + hz * 0.2 + ld * 0.1 \<le> 1"
    using rd ss hz ld by (intro weighted_sum_bounds) auto
  have sc: "score (assessThreat now currentLocation rt history deviationHistory
            zones locationEnabled lastUpdateTime) = rd * 0.4 + ss * 0.3 + hz * 0.2 + ld * 0.1"
    by (simp add: assessThreat_def Let_def rd_def ss_def hz_def ld_def ROUTE_DEVIATION_def
        SUSPICIOUS_STOPS_def HIGH_RISK_ZONE_def LOCATION_DISABLED_def)
  have fs: "factors (assessThreat now currentLocation rt history deviationHistory
            zones locationEnabled lastUpdateTime) =
          \<lparr>routeDeviation = rd, suspiciousStops = ss, highRiskZone = hz, locationDisabled = ld\<rparr>"
    by (simp add: assessThreat_def Let_def rd_def ss_def hz_def ld_def)
  show ?thesis unfolding sc fs using b by simp
qed

theorem assessThreat_score_witness:
  "0 \<le> riskLevel (sampleZone 0 0.7) \<and> riskLevel (sampleZone 0 0.7) \<le> 1 \<and>
   0 \<le> duration (sampleDeviation 1000 0) \<and>
   score (assessThreat 1000 (Some (meridianPoint 0 1000)) sampleRoute [] [sampleDeviation 1000 0]
            [sampleZone 0 0.7] True 1000) = 0.14"
proof -
  have z: "\<forall>z\<in>set [sampleZone 0 0.7]. 0 \<le> riskLevel z \<and> riskLevel z \<le> 1"
    by (simp add: sampleZone_def)
  have d: "\<forall>d\<in>set [sampleDeviation 1000 0]. 0 \<le> duration d"
    by (simp add: sampleDeviation_def)
  have f: "factors (assessThreat 1000 (Some (meridianPoint 0 1000)) sampleRoute []
            [sampleDeviation 1000 0] [sampleZone 0 0.7] True 1000) =
           \<lparr>routeDeviation = 0, suspiciousStops = 0, highRiskZone = 0.7, locationDisabled = 0\<rparr>"
    using distanceFromRoute_sampleRoute [of 0 1000] meridian_distance [of 0 0 1000 0]
    by (simp add: assessThreat_def Let_def calculateRouteDeviationScore_def
        SAFE_CORRIDOR_RADIUS_def calculateSuspiciousStopsScore_def
        calculateHighRiskZoneScore_def sampleZone_def calculateLocationDisabledScore_def)
  show ?thesis
    using z d assessThreat_score [OF z d, of 1000 "Some (meridianPoint 0 1000)" sampleRoute "[]" True 1000]
    unfolding f by simp
qed

lemma waypointLoop_finite:
  "m = Infinity \<or> (\<exists>d. m = Finite d \<and> 0 \<le> d) \<Longrightarrow> ws \<noteq> [] \<or> m \<noteq> Infinity \<Longrightarrow>
   \<exists>d. waypointLoop p ws m = Finite d \<and> 0 \<le> d"
proof (induction ws arbitrary: m)
  case Nil
  then show ?case by auto
next
  case (Cons w ws)
  have "\<exists>d. (if lt_dist (calculateDistance p w) m then Finite (calculateDistance p w) else m)
          = Finite d \<and> 0 \<le> d"
    using Cons.prems(1) calculateDistance_nonneg [of p w] by (cases m) auto
  then show ?case using Cons.IH by (auto simp: Let_def)
qed

lemma pointToLineSegmentDistance_Some:
  "\<exists>d. pointToLineSegmentDistance p s e = Some d \<and> 0 \<le> d"
  by (simp add: pointToLineSegmentDistance_def Let_def js_div_def calculateDistance_nonneg)

lemma segmentLoop_finite:
  "\<exists>d. m = Finite d \<and> 0 \<le> d \<Longrightarrow> \<exists>d. segmentLoop p ws m = Finite d \<and> 0 \<le> d"
proof (induction p ws m rule: segmentLoop.induct)
  case (1 point w1 w2 rest minDistance)
  obtain sd where sd: "pointToLineSegmentDistance point w1 w2 = Some sd" "0 \<le> sd"
    using pointToLineSegmentDistance_Some by blast
  have "\<exists>d. (if lt_dist sd minDistance then Finite sd else minDistance) = Finite d \<and> 0 \<le> d"
    using "1.prems" sd(2) by auto
  then show ?case using "1.IH" sd(1) by simp
qed simp_all

lemma distanceFromRoute_finite:
  "waypoints rt \<noteq> [] \<Longrightarrow> \<exists>d. distanceFromRoute p rt = Finite d \<and> 0 \<le> d"
  unfolding distanceFromRoute_def
  by (intro segmentLoop_finite waypointLoop_finite) simp_all

section \<open>Degenerate geometry and timestamps\<close>

text \<open>
  Over exact numbers a zero-length segment is harmless (\<open>segment_degenerate\<close>: the guard
  on \<open>lenSq\<close> keeps the division away and the distance to the segment's start is
  returned) and the distance from a route with a waypoint is finite
  (\<open>distanceFromRoute_finite\<close>). The geometry with a computed term is the exact one when
  the computed term is the exact term.
\<close>

lemma calculateDistanceWith_exact:
  "calculateDistanceWith haversine_a p q = Some (calculateDistance p q)"
  using haversine_a_nonneg [of p q] haversine_a_le_one [of p q]
  by (simp add: calculateDistanceWith_def distanceOfTerm_def calculateDistance_def Let_def)

lemma pointToLineSegmentDistanceWith_exact:
  "pointToLineSegmentDistanceWith haversine_a p s e = pointToLineSegmentDistance p s e"
  by (simp add: pointToLineSegmentDistanceWith_def pointToLineSegmentDistance_def Let_def
      calculateDistanceWith_exact split: option.splits)

lemma waypointLoopWith_exact:
  "waypointLoopWith haversine_a p ws m = waypointLoop p ws m"
  by (induction ws arbitrary: m) (simp_all add: calculateDistanceWith_exact Let_def)

lemma segmentLoopWith_exact:
  "segmentLoopWith haversine_a p ws m = segmentLoop p ws m"
  by (induction p ws m rule: segmentLoop.induct)
    (simp_all add: pointToLineSegmentDistanceWith_exact)

lemma distanceFromRouteWith_exact:
  "distanceFromRouteWith haversine_a p rt = distanceFromRoute p rt"
  by (simp add: distanceFromRouteWith_def distanceFromRoute_def waypointLoopWith_exact
      segmentLoopWith_exact)

text \<open>
  C9 says that the distance from a point to a zero-length segment is computed without a
  division by zero and is the great-circle distance to the segment's endpoint, and that
  \<open>distanceFromRoute\<close> on a route with consecutive duplicate waypoints is therefore a
  finite number. For the point \<open>(8, 0)\<close> and a route whose two waypoints are both
  \<open>(-8, 180)\<close> every call of \<open>calculateDistance\<close> is on that pair of coordinates, where
  the computed haversine term is \<open>1 + 1 / 2 ^ 52\<close>. No division by zero happens, but
  \<open>Math.sqrt(1 - a)\<close> is \<open>NaN\<close>: the segment distance is \<open>NaN\<close>, no comparison succeeds,
  and \<open>distanceFromRoute\<close> returns the \<open>Infinity\<close> it started from.
\<close>

theorem antipodal_route_distance:
  "calculateDistanceWith (\<lambda>p q. 1 + 1 / 2 ^ 52) (samplePoint 8 0) (samplePoint (- 8) 180) = None \<and>
   pointToLineSegmentDistanceWith (\<lambda>p q. 1 + 1 / 2 ^ 52) (samplePoint 8 0)
     (samplePoint (- 8) 180) (samplePoint (- 8) 180) = None \<and>
   distanceFromRouteWith (\<lambda>p q. 1 + 1 / 2 ^ 52) (samplePoint 8 0) antipodalRoute = Infinity"
  by (simp add: distanceFromRouteWith_def antipodalRoute_def pointToLineSegmentDistanceWith_def
      calculateDistanceWith_def distanceOfTerm_def Let_def)

text \<open>
  C10. In \<open>calculateSuspiciousStopsScore\<close>, a consecutive pair whose timestamp difference
  is zero or negative has speed \<open>0\<close> (the division is not reached), so the loop body
  treats it as stopped: it adds the time difference to the current stop duration and
  leaves the stop counter as it is.
\<close>

theorem nonpositive_timeDiff_stopped:
  assumes "timestamp current - timestamp previous \<le> 0"
  shows "pairSpeed previous current = Some 0 \<and>
         stopStep i previous current st =
           st\<lparr>stopStartIndex := (if stopStartIndex st = - 1 then int i - 1 else stopStartIndex st),
              currentStopDuration :=
                currentStopDuration st + (timestamp current - timestamp previous)\<rparr> \<and>
         suspiciousStopCount (stopStep i previous current st) = suspiciousStopCount st"
proof -
  have s: "pairSpeed previous current = Some 0"
    using assms by (simp add: pairSpeed_def Let_def)
  show ?thesis
    unfolding s by (simp add: stopStep_def Let_def s speedBelowOne_def)
qed

theorem nonpositive_timeDiff_stopped_witness:
  "timestamp (meridianPoint 90 2000) - timestamp (meridianPoint 0 5000) \<le> 0 \<and>
   pairSpeed (meridianPoint 0 5000) (meridianPoint 90 2000) = Some 0 \<and>
   stopStep 4 (meridianPoint 0 5000) (meridianPoint 90 2000)
     \<lparr>suspiciousStopCount = 0, currentStopDuration = 62000, stopStartIndex = 1\<rparr> =
     \<lparr>suspiciousStopCount = 0, currentStopDuration = 59000, stopStartIndex = 1\<rparr>"
proof -
  have h: "timestamp (meridianPoint 90 2000) - timestamp (meridianPoint 0 5000) \<le> 0"
    by (simp add: meridianPoint_def)
  show ?thesis
    using h nonpositive_timeDiff_stopped [OF h, of 4
        "\<lparr>suspiciousStopCount = 0, currentStopDuration = 62000, stopStartIndex = 1\<rparr>"]
    by (simp add: meridianPoint_def)
qed

section \<open>Levels and actions\<close>

lemma meridianPoint_simps:
  "lat (meridianPoint a t) = a" "lng (meridianPoint a t) = 0" "timestamp (meridianPoint a t) = t"
  by (simp_all add: meridianPoint_def)

lemma pairSpeed_still:
  "s < t \<Longrightarrow> pairSpeed (meridianPoint a s) (meridianPoint a t) = Some 0"
  using meridian_distance [of a a s t]
  by (simp add: pairSpeed_def Let_def js_div_def meridianPoint_def)

lemma pairSpeed_far:
  "\<bar>b - a\<bar> = 180 \<Longrightarrow>
   pairSpeed (meridianPoint a s) (meridianPoint b (s + 1000)) = Some (6371000 * pi)"
  using meridian_distance [of b a s "s + 1000"]
  by (simp add: pairSpeed_def Let_def js_div_def meridianPoint_def)

lemma earth_half_circumference: "\<not> 6371000 * pi < 1" "\<not> 6371000 * pi \<le> 100" "1000 \<le> 6371000 * pi"
  using pi_ge_two by simp_all

lemma stopStep_still:
  "s < t \<Longrightarrow> stopStep i (meridianPoint a s) (meridianPoint a t) st =
     st\<lparr>stopStartIndex := (if stopStartIndex st = - 1 then int i - 1 else stopStartIndex st),
        currentStopDuration := currentStopDuration st + (t - s)\<rparr>"
  by (simp add: stopStep_def Let_def pairSpeed_still speedBelowOne_def meridianPoint_simps)

lemma stopStep_far:
  "\<bar>b - a\<bar> = 180 \<Longrightarrow> stopStep i (meridianPoint a s) (meridianPoint b (s + 1000)) st =
     st\<lparr>suspiciousStopCount :=
           (if SUSPICIOUS_STOP_DURATION < currentStopDuration st
            then suspiciousStopCount st + 1 else suspiciousStopCount st),
        currentStopDuration := 0, stopStartIndex := - 1\<rparr>"
  by (simp add: stopStep_def Let_def pairSpeed_far speedBelowOne_def earth_half_circumference
      meridianPoint_simps)

lemma stops_one:
  "calculateSuspiciousStopsScore [meridianPoint 0 0, meridianPoint 0 61000] = 1 / 3"
  by (simp add: calculateSuspiciousStopsScore_def Let_def stopStep_still
      SUSPICIOUS_STOP_DURATION_def)

lemma stops_three:
  "calculateSuspiciousStopsScore
     [meridianPoint 0 0, meridianPoint 0 61000, meridianPoint 180 62000,
      meridianPoint 180 123000, meridianPoint 0 124000, meridianPoint 0 185000] = 1"
  using stopStep_far [where a = 0 and b = 180 and s = 61000]
    stopStep_far [where a = 180 and b = 0 and s = 123000]
  by (simp add: calculateSuspiciousStopsScore_def Let_def stopStep_still
      SUSPICIOUS_STOP_DURATION_def)

lemma deviation_far:
  "calculateRouteDeviationScore 185000 (meridianPoint 180 185000) sampleRoute
     [sampleDeviation 300000 185000] = 1"
  using distanceFromRoute_sampleRoute [of 180 185000]
    earth_half_circumference
  by (simp add: calculateRouteDeviationScore_def Let_def SAFE_CORRIDOR_RADIUS_def
      sampleDeviation_def min_def)

text \<open>
  C2. For every assessment that \<open>assessThreat\<close> returns, with score \<open>s\<close>: level and action
  are critical and emergency escalation if \<open>s \<ge> 0.9\<close>, else high and silent dispatch if
  \<open>s \<ge> 0.7\<close>, else medium and log if \<open>s \<ge> 0.4\<close>, else low and none if \<open>s > 0.2\<close>, else
  safe and none. In particular the scores \<open>0.4\<close>, \<open>0.7\<close> and \<open>0.9\<close> themselves give
  medium and log, high and silent dispatch, critical and emergency escalation.
\<close>

theorem assessThreat_thresholds:
  "(level (assessThreat now currentLocation rt history deviationHistory
       zones locationEnabled lastUpdateTime),
    action (assessThreat now currentLocation rt history deviationHistory
       zones locationEnabled lastUpdateTime)) =
   (let s = score (assessThreat now currentLocation rt history
       deviationHistory zones locationEnabled lastUpdateTime)
    in if 0.9 \<le> s then (Critical, EmergencyEscalation)
       else if 0.7 \<le> s then (High, SilentDispatch)
       else if 0.4 \<le> s then (Medium, Log)
       else if 0.2 < s then (Low, NoAction)
       else (Safe, NoAction)) \<and>
   (score (assessThreat now currentLocation rt history deviationHistory
       zones locationEnabled lastUpdateTime) = 0.4 \<longrightarrow>
    level (assessThreat now currentLocation rt history deviationHistory
       zones locationEnabled lastUpdateTime) = Medium \<and>
    action (assessThreat now currentLocation rt history deviationHistory
       zones locationEnabled lastUpdateTime) = Log) \<and>
   (score (assessThreat now currentLocation rt history deviationHistory
       zones locationEnabled lastUpdateTime) = 0.7 \<longrightarrow>
    level (assessThreat now currentLocation rt history deviationHistory
       zones locationEnabled lastUpdateTime) = High \<and>
    action (assessThreat now currentLocation rt history deviationHistory
       zones locationEnabled lastUpdateTime) = SilentDispatch) \<and>
   (score (assessThreat now currentLocation rt history deviationHistory
       zones locationEnabled lastUpdateTime) = 0.9 \<longrightarrow>
    level (assessThreat now currentLocation rt history deviationHistory
       zones locationEnabled lastUpdateTime) = Critical \<and>
    action (assessThreat now currentLocation rt history deviationHistory
       zones locationEnabled lastUpdateTime) = EmergencyEscalation)"
  by (simp add: assessThreat_def Let_def threatLevelAction_def EMERGENCY_ESCALATION_def
      SILENT_DISPATCH_def SOFT_ALERT_def)

lemma score_medium:
  "score (assessThreat 100000 None sampleRoute [meridianPoint 0 0, meridianPoint 0 61000] [] []
     False 100000) = 0.4"
  by (simp add: assessThreat_def Let_def stops_one calculateLocationDisabledScore_def
      ROUTE_DEVIATION_def SUSPICIOUS_STOPS_def HIGH_RISK_ZONE_def LOCATION_DISABLED_def)

lemma score_high:
  "score (assessThreat 185000 (Some (meridianPoint 180 185000)) sampleRoute
     [meridianPoint 0 0, meridianPoint 0 61000, meridianPoint 180 62000,
      meridianPoint 180 123000, meridianPoint 0 124000, meridianPoint 0 185000]
     [sampleDeviation 300000 185000] [] True 185000) = 0.7"
  by (simp add: assessThreat_def Let_def stops_three deviation_far
      calculateLocationDisabledScore_def calculateHighRiskZoneScore_def
      ROUTE_DEVIATION_def SUSPICIOUS_STOPS_def HIGH_RISK_ZONE_def LOCATION_DISABLED_def)

lemma score_critical:
  "score (assessThreat 185000 (Some (meridianPoint 180 185000)) sampleRoute
     [meridianPoint 0 0, meridianPoint 0 61000, meridianPoint 180 62000,
      meridianPoint 180 123000, meridianPoint 0 124000, meridianPoint 0 185000]
     [sampleDeviation 300000 185000] [sampleZone 180 0.8] True 145000) = 0.9"
  using meridian_distance [of 180 180 185000 0]
  by (simp add: assessThreat_def Let_def stops_three deviation_far
      calculateLocationDisabledScore_def calculateHighRiskZoneScore_def sampleZone_def
      ROUTE_DEVIATION_def SUSPICIOUS_STOPS_def HIGH_RISK_ZONE_def LOCATION_DISABLED_def)

theorem assessThreat_thresholds_witness:
  "level (assessThreat 100000 None sampleRoute [meridianPoint 0 0, meridianPoint 0 61000] [] []
     False 100000) = Medium \<and>
   action (assessThreat 100000 None sampleRoute [meridianPoint 0 0, meridianPoint 0 61000] [] []
     False 100000) = Log \<and>
   level (assessThreat 185000 (Some (meridianPoint 180 185000)) sampleRoute
     [meridianPoint 0 0, meridianPoint 0 61000, meridianPoint 180 62000,
      meridianPoint 180 123000, meridianPoint 0 124000, meridianPoint 0 185000]
     [sampleDeviation 300000 185000] [] True 185000) = High \<and>
   action (assessThreat 185000 (Some (meridianPoint 180 185000)) sampleRoute
     [meridianPoint 0 0, meridianPoint 0 61000, meridianPoint 180 62000,
      meridianPoint 180 123000, meridianPoint 0 124000, meridianPoint 0 185000]
     [sampleDeviation 300000 185000] [] True 185000) = SilentDispatch \<and>
   level (assessThreat 185000 (Some (meridianPoint 180 185000)) sampleRoute
     [meridianPoint 0 0, meridianPoint 0 61000, meridianPoint 180 62000,
      meridianPoint 180 123000, meridianPoint 0 124000, meridianPoint 0 185000]
     [sampleDeviation 300000 185000] [sampleZone 180 0.8] True 145000) = Critical \<and>
   action (assessThreat 185000 (Some (meridianPoint 180 185000)) sampleRoute
     [meridianPoint 0 0, meridianPoint 0 61000, meridianPoint 180 62000,
      meridianPoint 180 123000, meridianPoint 0 124000, meridianPoint 0 185000]
     [sampleDeviation 300000 185000] [sampleZone 180 0.8] True 145000) = EmergencyEscalation"
  using score_medium score_high score_critical
    assessThreat_thresholds [of 100000 None sampleRoute
      "[meridianPoint 0 0, meridianPoint 0 61000]" "[]" "[]" False 100000]
    assessThreat_thresholds [of 185000 "Some (meridianPoint 180 185000)" sampleRoute
      "[meridianPoint 0 0, meridianPoint 0 61000, meridianPoint 180 62000,
        meridianPoint 180 123000, meridianPoint 0 124000, meridianPoint 0 185000]"
      "[sampleDeviation 300000 185000]" "[]" True 185000]
    assessThreat_thresholds [of 185000 "Some (meridianPoint 180 185000)" sampleRoute
      "[meridianPoint 0 0, meridianPoint 0 61000, meridianPoint 180 62000,
        meridianPoint 180 123000, meridianPoint 0 124000, meridianPoint 0 185000]"
      "[sampleDeviation 300000 185000]" "[sampleZone 180 0.8]" True 145000]
  by simp

section \<open>Route deviation and distance\<close>

lemma deviation_score_finite:
  "distanceFromRoute loc rt = Finite d \<Longrightarrow> 100 < d \<Longrightarrow>
   calculateRouteDeviationScore now loc rt dh =
     min (min (d / 1000) 1 * 0.6 +
          min (foldl (\<lambda>sum d. sum + duration d) 0
                 (filter (\<lambda>d. now - dp_timestamp d < 300000) dh) / 300000) 1 * 0.4) 1"
  by (simp add: calculateRouteDeviationScore_def Let_def SAFE_CORRIDOR_RADIUS_def)

lemma blend_mono:
  fixes d1 d2 t :: real
  assumes "d1 < d2"
  shows "min (min (d1 / 1000) 1 * 0.6 + min t 1 * 0.4) 1 \<le>
         min (min (d2 / 1000) 1 * 0.6 + min t 1 * 0.4) 1"
proof -
  have "min (d1 / 1000) 1 \<le> min (d2 / 1000) 1" using assms by simp
  then have "min (d1 / 1000) 1 * 0.6 + min t 1 * 0.4 \<le> min (d2 / 1000) 1 * 0.6 + min t 1 * 0.4"
    by simp
  then show ?thesis by (rule min.mono) simp
qed

lemma blend_capped:
  fixes d1 d2 t :: real
  assumes "d1 < d2" "1000 \<le> d1"
  shows "min (min (d1 / 1000) 1 * 0.6 + min t 1 * 0.4) 1 =
         min (min (d2 / 1000) 1 * 0.6 + min t 1 * 0.4) 1"
proof -
  have "min (d1 / 1000) 1 = 1" "min (d2 / 1000) 1 = 1" using assms by simp_all
  then show ?thesis by simp
qed

text \<open>
  C4, as the code has it. For a fixed deviation history and evaluation time, when two
  current locations both lie more than 100 m from the confirmed route, the one with the
  strictly greater distance has a route deviation factor that is at least as great,
  never smaller; when the smaller distance is 1000 m or more the two factors are equal,
  because the distance term is capped at 1 km.
\<close>

theorem deviation_monotone_capped:
  assumes "distanceFromRoute loc1 rt = Finite d1" and "distanceFromRoute loc2 rt = Finite d2"
    and "100 < d1" and "d1 < d2"
  shows "calculateRouteDeviationScore now loc1 rt dh \<le>
           calculateRouteDeviationScore now loc2 rt dh \<and>
         (1000 \<le> d1 \<longrightarrow>
            calculateRouteDeviationScore now loc1 rt dh =
            calculateRouteDeviationScore now loc2 rt dh)"
proof -
  have d2: "100 < d2" using assms(3,4) by simp
  show ?thesis
    unfolding deviation_score_finite [OF assms(1) assms(3)] deviation_score_finite [OF assms(2) d2]
    using blend_mono [OF assms(4)] blend_capped [OF assms(4)] by blast
qed

lemma quarter_circumference: "100 < 6371000 * (pi / 2)" "1000 \<le> 6371000 * (pi / 2)"
  using pi_ge_two by simp_all

text \<open>
  C4 as stated (strictly greater at every distance above the corridor) fails: a quarter
  and a half of the Earth's circumference away from the route give the same factor
  \<open>0.6\<close>.
\<close>

theorem deviation_not_strictly_monotone:
  "distanceFromRoute (meridianPoint 90 0) sampleRoute = Finite (6371000 * (pi / 2)) \<and>
   distanceFromRoute (meridianPoint 180 0) sampleRoute = Finite (6371000 * pi) \<and>
   100 < 6371000 * (pi / 2) \<and> 6371000 * (pi / 2) < 6371000 * pi \<and>
   \<not> calculateRouteDeviationScore 0 (meridianPoint 90 0) sampleRoute [] <
     calculateRouteDeviationScore 0 (meridianPoint 180 0) sampleRoute []"
proof -
  have a: "distanceFromRoute (meridianPoint 90 0) sampleRoute = Finite (6371000 * (pi / 2))"
    using distanceFromRoute_sampleRoute [of 90 0] by simp
  have b: "distanceFromRoute (meridianPoint 180 0) sampleRoute = Finite (6371000 * pi)"
    using distanceFromRoute_sampleRoute [of 180 0] by simp
  have c: "100 < 6371000 * (pi / 2)" by (rule quarter_circumference)
  have d: "100 < 6371000 * pi" using pi_ge_two by simp
  have e: "calculateRouteDeviationScore 0 (meridianPoint 90 0) sampleRoute [] = 0.6"
    unfolding deviation_score_finite [OF a c] using quarter_circumference(2) by simp
  have f: "calculateRouteDeviationScore 0 (meridianPoint 180 0) sampleRoute [] = 0.6"
    unfolding deviation_score_finite [OF b d] using earth_half_circumference(3) by simp
  show ?thesis using a b c e f by simp
qed

lemma small_distances:
  "100 < 6371000 * (0.005 * pi / 180)" "6371000 * (0.005 * pi / 180) < 1000"
  "6371000 * (0.005 * pi / 180) < 6371000 * (0.006 * pi / 180)"
  using pi_ge_two pi_less_4 by simp_all

theorem deviation_monotone_capped_witness:
  "distanceFromRoute (meridianPoint 0.005 0) sampleRoute = Finite (6371000 * (0.005 * pi / 180)) \<and>
   distanceFromRoute (meridianPoint 0.006 0) sampleRoute = Finite (6371000 * (0.006 * pi / 180)) \<and>
   100 < 6371000 * (0.005 * pi / 180) \<and>
   6371000 * (0.005 * pi / 180) < 6371000 * (0.006 * pi / 180) \<and>
   calculateRouteDeviationScore 0 (meridianPoint 0.005 0) sampleRoute [sampleDeviation 1000 0] \<le>
   calculateRouteDeviationScore 0 (meridianPoint 0.006 0) sampleRoute [sampleDeviation 1000 0] \<and>
   1000 \<le> 6371000 * (pi / 2) \<and>
   calculateRouteDeviationScore 0 (meridianPoint 90 0) sampleRoute [sampleDeviation 1000 0] =
   calculateRouteDeviationScore 0 (meridianPoint 180 0) sampleRoute [sampleDeviation 1000 0]"
proof -
  have a: "distanceFromRoute (meridianPoint 0.005 0) sampleRoute =
      Finite (6371000 * (0.005 * pi / 180))"
    using distanceFromRoute_sampleRoute [of "0.005" 0] by simp
  have b: "distanceFromRoute (meridianPoint 0.006 0) sampleRoute =
      Finite (6371000 * (0.006 * pi / 180))"
    using distanceFromRoute_sampleRoute [of "0.006" 0] by simp
  have c: "distanceFromRoute (meridianPoint 90 0) sampleRoute = Finite (6371000 * (pi / 2))"
    using distanceFromRoute_sampleRoute [of 90 0] by simp
  have d: "distanceFromRoute (meridianPoint 180 0) sampleRoute = Finite (6371000 * pi)"
    using distanceFromRoute_sampleRoute [of 180 0] by simp
  have lt: "6371000 * (pi / 2) < 6371000 * pi" by simp
  show ?thesis
    using a b small_distances quarter_circumference
      deviation_monotone_capped [OF a b small_distances(1) small_distances(3), of 0
        "[sampleDeviation 1000 0]"]
      deviation_monotone_capped [OF c d quarter_circumference(1) lt, of 0
        "[sampleDeviation 1000 0]"]
    by blast
qed

section \<open>Community reports\<close>

text \<open>
  C8. \<open>validateCommunityReport\<close> applies three rejection rules in order: trust score below
  \<open>0.3\<close>; more than 5 reports of the same reporter in the last 24 h; more than 10 reports
  within 500 m in the last hour. The first rule that fails gives \<open>valid = false\<close>, weight
  \<open>0\<close> and that rule's reason. A report that passes all three is valid, with weight
  \<open>MAX_WEIGHT * decayFactor * trustScore\<close> when at least 3 verified reports of the same type
  lie within 500 m and \<open>MAX_WEIGHT * 0.3 * decayFactor * trustScore\<close> otherwise, where
  \<open>decayFactor = max(0, 1 - ageDays / 30)\<close>. A trust score of \<open>0.2\<close> gives \<open>valid = false\<close>
  and weight \<open>0\<close>.
\<close>

theorem validateCommunityReport_rules:
  "(reporterTrustScore report < 0.3 \<longrightarrow>
      validateCommunityReport now report existingReports =
        rejected ''Reporter trust score too low'') \<and>
   (\<not> reporterTrustScore report < 0.3 \<and> 5 < sameReporterLast24h now report existingReports \<longrightarrow>
      validateCommunityReport now report existingReports =
        rejected ''Suspicious reporting frequency'') \<and>
   (\<not> reporterTrustScore report < 0.3 \<and> \<not> 5 < sameReporterLast24h now report existingReports \<and>
    10 < within500mLastHour now report existingReports \<longrightarrow>
      validateCommunityReport now report existingReports =
        rejected ''Possible coordinated manipulation'') \<and>
   (\<not> reporterTrustScore report < 0.3 \<and> \<not> 5 < sameReporterLast24h now report existingReports \<and>
    \<not> 10 < within500mLastHour now report existingReports \<longrightarrow>
      valid (validateCommunityReport now report existingReports) \<and>
      weight (validateCommunityReport now report existingReports) =
        (if 3 \<le> verifiedSameTypeWithin500m report existingReports
         then 0.1 * spec_decayFactor now report * reporterTrustScore report
         else 0.1 * 0.3 * spec_decayFactor now report * reporterTrustScore report)) \<and>
   (reporterTrustScore report = 0.2 \<longrightarrow>
      \<not> valid (validateCommunityReport now report existingReports) \<and>
      weight (validateCommunityReport now report existingReports) = 0)"
  by (simp add: validateCommunityReport_def Let_def rejected_def sameReporterLast24h_def
      within500mLastHour_def verifiedSameTypeWithin500m_def spec_decayFactor_def
      MIN_TRUST_SCORE_def MAX_WEIGHT_def MIN_CONSENSUS_def DECAY_DAYS_def conj_commute)

theorem validateCommunityReport_rules_witness:
  "validateCommunityReport 0 (sampleReport ''user-1'' 0.2 0) [] =
     rejected ''Reporter trust score too low'' \<and>
   validateCommunityReport 0 (sampleReport ''user-1'' 0.85 0)
     (replicate 6 (sampleReport ''user-1'' 0.85 0)) =
     rejected ''Suspicious reporting frequency'' \<and>
   validateCommunityReport 0 (sampleReport ''user-1'' 0.85 0)
     (replicate 11 (sampleReport ''user-2'' 0.85 0)) =
     rejected ''Possible coordinated manipulation'' \<and>
   weight (validateCommunityReport 0 (sampleReport ''user-1'' 0.85 0)
     (replicate 3 (sampleReport ''user-2'' 0.85 0))) = 0.085 \<and>
   weight (validateCommunityReport 0 (sampleReport ''user-1'' 0.85 0) []) = 0.0255 \<and>
   weight (validateCommunityReport 0 (sampleReport ''user-1'' 0.2 0) []) = 0"
proof -
  note defs = sampleReport_def meridianPoint_def calculateDistance_same sameReporterLast24h_def
    within500mLastHour_def verifiedSameTypeWithin500m_def spec_decayFactor_def
  have a: "validateCommunityReport 0 (sampleReport ''user-1'' 0.2 0) [] =
      rejected ''Reporter trust score too low''"
    using validateCommunityReport_rules [of "sampleReport ''user-1'' 0.2 0" 0 "[]"]
    by (simp add: defs)
  have b: "validateCommunityReport 0 (sampleReport ''user-1'' 0.85 0)
      (replicate 6 (sampleReport ''user-1'' 0.85 0)) = rejected ''Suspicious reporting frequency''"
    using validateCommunityReport_rules [of "sampleReport ''user-1'' 0.85 0" 0
        "replicate 6 (sampleReport ''user-1'' 0.85 0)"]
    by (simp add: defs)
  have c: "validateCommunityReport 0 (sampleReport ''user-1'' 0.85 0)
      (replicate 11 (sampleReport ''user-2'' 0.85 0)) =
      rejected ''Possible coordinated manipulation''"
    using validateCommunityReport_rules [of "sampleReport ''user-1'' 0.85 0" 0
        "replicate 11 (sampleReport ''user-2'' 0.85 0)"]
    by (simp add: defs)
  have d: "weight (validateCommunityReport 0 (sampleReport ''user-1'' 0.85 0)
      (replicate 3 (sampleReport ''user-2'' 0.85 0))) = 0.085"
    using validateCommunityReport_rules [of "sampleReport ''user-1'' 0.85 0" 0
        "replicate 3 (sampleReport ''user-2'' 0.85 0)"]
    by (simp add: defs)
  have e: "weight (validateCommunityReport 0 (sampleReport ''user-1'' 0.85 0) []) = 0.0255"
    using validateCommunityReport_rules [of "sampleReport ''user-1'' 0.85 0" 0 "[]"]
    by (simp add: defs)
  show ?thesis using a b c d e by (simp add: rejected_def)
qed

section \<open>Suspicious stops\<close>

lemma pairStops_simps:
  "pairStops [] = []" "pairStops [a] = []"
  "pairStops (a # b # rest) =
     (speedBelowOne (pairSpeed a b), timestamp b - timestamp a) # pairStops (b # rest)"
  by (simp_all add: pairStops_def)

lemma stopRuns_nonempty: "stopRuns ps \<noteq> []"
  by (induction ps rule: stopRuns.induct) (auto split: list.splits)

lemma stopStep_stopped:
  "speedBelowOne (pairSpeed a b) \<Longrightarrow>
   suspiciousStopCount (stopStep i a b st) = suspiciousStopCount st \<and>
   currentStopDuration (stopStep i a b st) = currentStopDuration st + (timestamp b - timestamp a)"
  by (simp add: stopStep_def Let_def)

lemma stopStep_moving:
  "\<not> speedBelowOne (pairSpeed a b) \<Longrightarrow>
   suspiciousStopCount (stopStep i a b st) =
     suspiciousStopCount st + (if 60000 < currentStopDuration st then 1 else 0) \<and>
   currentStopDuration (stopStep i a b st) = 0"
  by (simp add: stopStep_def Let_def SUSPICIOUS_STOP_DURATION_def)

lemma stopLoop_counts:
  "suspiciousStopCount (stopLoop i (a # rest) st) +
     (if 60000 < currentStopDuration (stopLoop i (a # rest) st) then 1 else 0) =
   suspiciousStopCount st +
     (case stopRuns (pairStops (a # rest)) of
        [] \<Rightarrow> 0
      | run # runs \<Rightarrow>
          (if 60000 < currentStopDuration st + sum_list run then 1 else 0) +
          length (filter (\<lambda>run. 60000 < sum_list run) runs))"
proof (induction rest arbitrary: a i st)
  case Nil
  then show ?case by (simp add: pairStops_simps)
next
  case (Cons b rest)
  obtain run runs where rr: "stopRuns (pairStops (b # rest)) = run # runs"
    using stopRuns_nonempty [of "pairStops (b # rest)"] by (cases "stopRuns (pairStops (b # rest))") auto
  show ?case
  proof (cases "speedBelowOne (pairSpeed a b)")
    case True
    then show ?thesis
      using Cons.IH [of "i + 1" b "stopStep i a b st"] stopStep_stopped [OF True, of i st]
      by (simp add: pairStops_simps rr add.assoc)
  next
    case False
    then show ?thesis
      using Cons.IH [of "i + 1" b "stopStep i a b st"] stopStep_moving [OF False, of i st]
      by (simp add: pairStops_simps rr)
  qed
qed

lemma suspiciousStops_refines:
  "calculateSuspiciousStopsScore h = spec_suspiciousStopsScore h"
proof (cases h)
  case Nil
  then show ?thesis
    by (simp add: calculateSuspiciousStopsScore_def spec_suspiciousStopsScore_def
        qualifyingStops_def pairStops_simps)
next
  case (Cons a rest)
  show ?thesis
  proof (cases rest)
    case Nil
    then show ?thesis using Cons
      by (simp add: calculateSuspiciousStopsScore_def spec_suspiciousStopsScore_def
          qualifyingStops_def pairStops_simps)
  next
    case (Cons b rest')
    obtain run runs where rr: "stopRuns (pairStops h) = run # runs"
      using stopRuns_nonempty [of "pairStops h"] by (cases "stopRuns (pairStops h)") auto
    have c: "(if 60000 < currentStopDuration (stopLoop 1 h
                \<lparr>suspiciousStopCount = 0, currentStopDuration = 0, stopStartIndex = - 1\<rparr>)
              then suspiciousStopCount (stopLoop 1 h
                \<lparr>suspiciousStopCount = 0, currentStopDuration = 0, stopStartIndex = - 1\<rparr>) + 1
              else suspiciousStopCount (stopLoop 1 h
                \<lparr>suspiciousStopCount = 0, currentStopDuration = 0, stopStartIndex = - 1\<rparr>)) =
             qualifyingStops h"
      using stopLoop_counts [of 1 a rest
          "\<lparr>suspiciousStopCount = 0, currentStopDuration = 0, stopStartIndex = - 1\<rparr>"]
        \<open>h = a # rest\<close> rr
      by (auto simp: qualifyingStops_def split: if_splits)
    have len: "\<not> length h < 2" using \<open>h = a # rest\<close> Cons by simp
    show ?thesis
      unfolding calculateSuspiciousStopsScore_def spec_suspiciousStopsScore_def Let_def
        SUSPICIOUS_STOP_DURATION_def
      by (simp only: len if_False c)
  qed
qed

lemma pairStops_append:
  "xs \<noteq> [] \<Longrightarrow>
   pairStops (xs @ y # ys) =
     pairStops xs @
     (speedBelowOne (pairSpeed (last xs) y), timestamp y - timestamp (last xs)) # pairStops (y # ys)"
proof (induction xs rule: induct_list012)
  case 1
  then show ?case by simp
next
  case (2 x)
  then show ?case by (simp add: pairStops_simps)
next
  case (3 x x' xs)
  then show ?case by (simp add: pairStops_simps)
qed

lemma pairStops_telescope:
  "xs \<noteq> [] \<Longrightarrow> sum_list (map snd (pairStops xs)) = timestamp (last xs) - timestamp (hd xs)"
proof (induction xs rule: induct_list012)
  case 1
  then show ?case by simp
next
  case (2 x)
  then show ?case by (simp add: pairStops_simps)
next
  case (3 x x' xs)
  then show ?case by (simp add: pairStops_simps)
qed

lemma stopRuns_stopped_prefix:
  "\<forall>p\<in>set ps. fst p \<Longrightarrow>
   stopRuns (ps @ (False, d) # qs) = map snd ps # stopRuns qs"
  by (induction ps) (auto split: list.splits)

lemma third_le: "1 \<le> n \<Longrightarrow> 1 / 3 \<le> min (real n / 3) 1"
  by simp

text \<open>
  C7. \<open>calculateSuspiciousStopsScore\<close> returns \<open>min(count / 3, 1)\<close>, where \<open>count\<close> is the
  number of maximal contiguous runs of consecutive pairs with speed below 1 m/s whose
  accumulated duration exceeds 60000 ms, a run closed by a pair at 1 m/s or more and the
  run still open at the end of the history both counting. In particular a history that
  starts with a stationary stretch of more than 60 s (65 s, say) after which the rider
  moves again has a factor of at least \<open>1/3\<close>.
\<close>

theorem suspiciousStops_counts_runs:
  "calculateSuspiciousStopsScore h = min (real (qualifyingStops h) / 3) 1 \<and>
   (stationary \<noteq> [] \<and> (\<forall>p\<in>set (pairStops stationary). fst p) \<and>
    60000 < timestamp (last stationary) - timestamp (hd stationary) \<and>
    \<not> speedBelowOne (pairSpeed (last stationary) resumed) \<longrightarrow>
      1 / 3 \<le> calculateSuspiciousStopsScore (stationary @ resumed # rest))"
proof (intro conjI impI)
  show "calculateSuspiciousStopsScore h = min (real (qualifyingStops h) / 3) 1"
    using suspiciousStops_refines [of h] by (simp add: spec_suspiciousStopsScore_def)
next
  assume a: "stationary \<noteq> [] \<and> (\<forall>p\<in>set (pairStops stationary). fst p) \<and>
    60000 < timestamp (last stationary) - timestamp (hd stationary) \<and>
    \<not> speedBelowOne (pairSpeed (last stationary) resumed)"
  have ps: "pairStops (stationary @ resumed # rest) =
      pairStops stationary @
      (False, timestamp resumed - timestamp (last stationary)) # pairStops (resumed # rest)"
    using a pairStops_append [of stationary resumed rest] by simp
  have runs: "stopRuns (pairStops (stationary @ resumed # rest)) =
      map snd (pairStops stationary) # stopRuns (pairStops (resumed # rest))"
    unfolding ps using a by (intro stopRuns_stopped_prefix) simp
  have "60000 < sum_list (map snd (pairStops stationary))"
    using a pairStops_telescope [of stationary] by simp
  then have "1 \<le> qualifyingStops (stationary @ resumed # rest)"
    unfolding qualifyingStops_def runs by simp
  then have "1 / 3 \<le> min (real (qualifyingStops (stationary @ resumed # rest)) / 3) 1"
    by (rule third_le)
  then show "1 / 3 \<le> calculateSuspiciousStopsScore (stationary @ resumed # rest)"
    using suspiciousStops_refines [of "stationary @ resumed # rest"]
    by (simp add: spec_suspiciousStopsScore_def)
qed

theorem suspiciousStops_counts_runs_witness:
  "1 / 3 \<le> calculateSuspiciousStopsScore
      [meridianPoint 0 0, meridianPoint 0 65000, meridianPoint 180 66000] \<and>
   calculateSuspiciousStopsScore
      [meridianPoint 0 0, meridianPoint 0 65000, meridianPoint 180 66000] =
   min (real (qualifyingStops
      [meridianPoint 0 0, meridianPoint 0 65000, meridianPoint 180 66000]) / 3) 1"
proof -
  have st: "\<forall>p\<in>set (pairStops [meridianPoint 0 0, meridianPoint 0 65000]). fst p"
    by (simp add: pairStops_simps pairSpeed_still speedBelowOne_def)
  have mv: "\<not> speedBelowOne (pairSpeed (last [meridianPoint 0 0, meridianPoint 0 65000])
      (meridianPoint 180 66000))"
    using pairSpeed_far [where a = 0 and b = 180 and s = 65000] earth_half_circumference(1)
    by (simp add: speedBelowOne_def)
  have ts: "60000 < timestamp (last [meridianPoint 0 0, meridianPoint 0 65000]) -
      timestamp (hd [meridianPoint 0 0, meridianPoint 0 65000])"
    by (simp add: meridianPoint_simps)
  note t = suspiciousStops_counts_runs [of
      "[meridianPoint 0 0, meridianPoint 0 65000, meridianPoint 180 66000]"
      "[meridianPoint 0 0, meridianPoint 0 65000]" "meridianPoint 180 66000" "[]"]
  have l: "1 / 3 \<le> calculateSuspiciousStopsScore
      ([meridianPoint 0 0, meridianPoint 0 65000] @ meridianPoint 180 66000 # [])"
    using t st mv ts by blast
  show ?thesis
  proof (intro conjI)
    show "1 / 3 \<le> calculateSuspiciousStopsScore
        [meridianPoint 0 0, meridianPoint 0 65000, meridianPoint 180 66000]"
      using l by simp
    show "calculateSuspiciousStopsScore
        [meridianPoint 0 0, meridianPoint 0 65000, meridianPoint 180 66000] =
      min (real (qualifyingStops
        [meridianPoint 0 0, meridianPoint 0 65000, meridianPoint 180 66000]) / 3) 1"
      using t by (rule conjunct1)
  qed
qed

section \<open>The forced threat level\<close>

text \<open>
  Away from the score \<open>0.2\<close> the threshold chain of \<open>force-threat-level\<close> gives the
  level and action of \<open>assessThreat\<close>, and the factors are the forced score times the
  weights.
\<close>

lemma forced_agrees_off_boundary:
  "s \<noteq> 0.2 \<Longrightarrow> forcedLevelAction s = threatLevelAction s"
  by (auto simp: forcedLevelAction_def threatLevelAction_def EMERGENCY_ESCALATION_def
      SILENT_DISPATCH_def SOFT_ALERT_def)

lemma forced_factors:
  "factors (forcedThreat now s) =
     \<lparr>routeDeviation = s * 0.4, suspiciousStops = s * 0.3, highRiskZone = s * 0.2,
      locationDisabled = s * 0.1\<rparr>"
  by (simp add: forcedThreat_def)

text \<open>
  C3 says that \<open>force-threat-level\<close> gives, for every forced score in \<open>[0, 1]\<close>, the
  level and action that the thresholds of \<open>assessThreat\<close> give to that score, the
  boundary \<open>0.2\<close> included. At the forced score \<open>0.2\<close> the handler answers with level
  low (its first test is \<open>forcedScore < 0.2\<close>), while \<open>assessThreat\<close> gives level safe
  to the score \<open>0.2\<close> (its test is \<open>score > 0.2\<close>); the actions agree.
\<close>

theorem forced_level_at_boundary:
  "out_response (monitorPOST e st (ForceThreatLevel sessionId loc 0.2 (Some session))) =
     Inr (ForcedThreatDone (forcedThreat (env_now e) 0.2) None) \<and>
   level (forcedThreat (env_now e) 0.2) = Low \<and>
   action (forcedThreat (env_now e) 0.2) = NoAction \<and>
   threatLevelAction 0.2 = (Safe, NoAction)"
  by (simp add: monitorPOST_def forceThreatLevel_def findSession_def Let_def forcedThreat_def
      forcedLevelAction_def threatLevelAction_def EMERGENCY_ESCALATION_def
      SILENT_DISPATCH_def SOFT_ALERT_def)

section \<open>Escalation\<close>

lemma notifyLoop_Cons_cases:
  obtains
    (thrown) "\<not> notified c" "email c \<noteq> []"
      "notifyLoop e loc (c # cs) st =
         st\<lparr>ns_contacts := ns_contacts st @ c # cs, ns_thrown := True\<rparr>"
  | (skip) "notified c \<or> email c = []"
      "notifyLoop e loc (c # cs) st =
         notifyLoop e loc cs (st\<lparr>ns_contacts := ns_contacts st @ [c]\<rparr>)"
  | (delivered) st1 where "\<not> notified c" "email c \<noteq> []"
      "notifyLoop e loc (c # cs) st = notifyLoop e loc cs st1"
      "ns_contacts st1 =
         ns_contacts st @ [c\<lparr>notified := True, notifiedAt := Some (env_now e)\<rparr>]"
      "ns_calls st1 = ns_calls st @ [(length (ns_contacts st), Delivered)]"
      "ns_notified st1 =
         ns_notified st @ [c\<lparr>notified := True, notifiedAt := Some (env_now e)\<rparr>]"
  | (failed) st1 err where "\<not> notified c" "email c \<noteq> []"
      "notifyLoop e loc (c # cs) st = notifyLoop e loc cs st1"
      "ns_contacts st1 = ns_contacts st @ [c]"
      "ns_calls st1 = ns_calls st @ [(length (ns_contacts st), Failed err)]"
      "ns_notified st1 = ns_notified st"
proof (cases "\<not> notified c \<and> email c \<noteq> []")
  case False
  then have "notifyLoop e loc (c # cs) st =
      notifyLoop e loc cs (st\<lparr>ns_contacts := ns_contacts st @ [c]\<rparr>)"
    by auto
  then show ?thesis using skip False by blast
next
  case True
  show ?thesis
  proof (cases loc)
    case None
    then show ?thesis using True thrown by simp
  next
    case (Some l)
    show ?thesis
    proof (cases "env_emailResults e (length (ns_calls st))")
      case Delivered
      show ?thesis
        by (rule delivered [of "\<lparr>ns_contacts = ns_contacts st @
                  [c\<lparr>notified := True, notifiedAt := Some (env_now e)\<rparr>],
                ns_actions = ns_actions st @
                  [''EMAIL_SENT: '' @ name c @ '' ('' @ email c @ '')''],
                ns_notified = ns_notified st @
                  [c\<lparr>notified := True, notifiedAt := Some (env_now e)\<rparr>],
                ns_calls = ns_calls st @ [(length (ns_contacts st), Delivered)],
                ns_thrown = False\<rparr>"])
          (use True Some Delivered in \<open>simp_all add: Let_def\<close>)
    next
      case (Failed err)
      show ?thesis
        by (rule failed [of "\<lparr>ns_contacts = ns_contacts st @ [c],
                ns_actions = ns_actions st @ [''EMAIL_FAILED: '' @ name c @ '' - '' @ err],
                ns_notified = ns_notified st,
                ns_calls = ns_calls st @ [(length (ns_contacts st), Failed err)],
                ns_thrown = False\<rparr>" err])
          (use True Some Failed in \<open>simp_all add: Let_def\<close>)
    qed
  qed
qed

declare notifyLoop.simps(2) [simp del]

lemma notifyLoop_length:
  "length (ns_contacts (notifyLoop e loc cs st)) = length (ns_contacts st) + length cs"
proof (induction cs arbitrary: st)
  case Nil
  then show ?case by simp
next
  case (Cons c cs)
  show ?case
    by (cases rule: notifyLoop_Cons_cases [of c e loc cs st]) (simp_all add: Cons.IH)
qed

lemma notifyLoop_prefix:
  "j < length (ns_contacts st) \<Longrightarrow>
   ns_contacts (notifyLoop e loc cs st) ! j = ns_contacts st ! j"
proof (induction cs arbitrary: st)
  case Nil
  then show ?case by simp
next
  case (Cons c cs)
  show ?case
    using Cons.prems
    by (cases rule: notifyLoop_Cons_cases [of c e loc cs st])
      (simp_all add: Cons.IH nth_append)
qed

lemma notifyLoop_skip:
  "j < length cs \<Longrightarrow> notified (cs ! j) \<or> email (cs ! j) = [] \<Longrightarrow>
   ns_contacts (notifyLoop e loc cs st) ! (length (ns_contacts st) + j) = cs ! j"
proof (induction cs arbitrary: st j)
  case Nil
  then show ?case by simp
next
  case (Cons c cs)
  show ?case
  proof (cases j)
    case 0
    then have sk: "notified c \<or> email c = []" using Cons.prems(2) by simp
    show ?thesis
      using sk 0
        notifyLoop_prefix [of "length (ns_contacts st)"
          "st\<lparr>ns_contacts := ns_contacts st @ [c]\<rparr>" e loc cs]
      by (cases rule: notifyLoop_Cons_cases [of c e loc cs st]) simp_all
  next
    case (Suc j')
    then have j': "j' < length cs" "notified (cs ! j') \<or> email (cs ! j') = []"
      using Cons.prems by simp_all
    show ?thesis
    proof (cases rule: notifyLoop_Cons_cases [of c e loc cs st])
      case thrown
      then show ?thesis using Suc j' by (simp add: nth_append)
    next
      case skip
      then show ?thesis
        using Suc Cons.IH [OF j', of "st\<lparr>ns_contacts := ns_contacts st @ [c]\<rparr>"] by simp
    next
      case (delivered st1)
      then show ?thesis using Suc Cons.IH [OF j', of st1] by simp
    next
      case (failed st1 err)
      then show ?thesis using Suc Cons.IH [OF j', of st1] by simp
    qed
  qed
qed

lemma notifyLoop_calls:
  "p \<in> fst ` set (ns_calls (notifyLoop e loc cs st)) \<Longrightarrow>
   p \<in> fst ` set (ns_calls st) \<or>
   (length (ns_contacts st) \<le> p \<and> p < length (ns_contacts st) + length cs \<and>
    \<not> notified (cs ! (p - length (ns_contacts st))) \<and>
    email (cs ! (p - length (ns_contacts st))) \<noteq> [])"
proof (induction cs arbitrary: st)
  case Nil
  then show ?case by simp
next
  case (Cons c cs)
  show ?case
  proof (cases rule: notifyLoop_Cons_cases [of c e loc cs st])
    case thrown
    then show ?thesis using Cons.prems by simp
  next
    case skip
    then show ?thesis
      using Cons.prems Cons.IH [of "st\<lparr>ns_contacts := ns_contacts st @ [c]\<rparr>"]
      by (auto simp: nth_Cons' Suc_diff_le)
  next
    case (delivered st1)
    then show ?thesis
      using Cons.prems Cons.IH [of st1] by (auto simp: nth_Cons' Suc_diff_le)
  next
    case (failed st1 err)
    then show ?thesis
      using Cons.prems Cons.IH [of st1] by (auto simp: nth_Cons' Suc_diff_le)
  qed
qed

lemma deliveredTo_append:
  "deliveredTo (xs @ ys) = deliveredTo xs @ deliveredTo ys"
  by (simp add: deliveredTo_def)

lemma notifyLoop_delivered:
  "p \<in> set (deliveredTo (ns_calls (notifyLoop e loc cs st))) \<Longrightarrow>
   p \<in> set (deliveredTo (ns_calls st)) \<or>
   (length (ns_contacts st) \<le> p \<and> p < length (ns_contacts st) + length cs \<and>
    notified (ns_contacts (notifyLoop e loc cs st) ! p))"
proof (induction cs arbitrary: st)
  case Nil
  then show ?case by simp
next
  case (Cons c cs)
  show ?case
  proof (cases rule: notifyLoop_Cons_cases [of c e loc cs st])
    case thrown
    then show ?thesis using Cons.prems by simp
  next
    case skip
    then show ?thesis
      using Cons.prems Cons.IH [of "st\<lparr>ns_contacts := ns_contacts st @ [c]\<rparr>"] by auto
  next
    case (delivered st1)
    have "ns_contacts (notifyLoop e loc cs st1) ! length (ns_contacts st) =
        ns_contacts st1 ! length (ns_contacts st)"
      by (rule notifyLoop_prefix) (simp add: delivered(4))
    then have here: "notified (ns_contacts (notifyLoop e loc (c # cs) st) ! length (ns_contacts st))"
      by (simp add: delivered(3,4))
    show ?thesis
      using Cons.prems Cons.IH [of st1] delivered here
      by (auto simp: deliveredTo_append deliveredTo_def)
  next
    case (failed st1 err)
    then show ?thesis
      using Cons.prems Cons.IH [of st1] by (auto simp: deliveredTo_append deliveredTo_def)
  qed
qed

lemma notifyLoop_packet:
  "ns_notified st = map (nth (ns_contacts st)) (deliveredTo (ns_calls st)) \<Longrightarrow>
   \<forall>p\<in>fst ` set (ns_calls st). p < length (ns_contacts st) \<Longrightarrow>
   ns_notified (notifyLoop e loc cs st) =
     map (nth (ns_contacts (notifyLoop e loc cs st)))
       (deliveredTo (ns_calls (notifyLoop e loc cs st)))"
proof (induction cs arbitrary: st)
  case Nil
  then show ?case by simp
next
  case (Cons c cs)
  have old: "\<And>x. map (nth (ns_contacts st @ x)) (deliveredTo (ns_calls st)) =
      map (nth (ns_contacts st)) (deliveredTo (ns_calls st))"
    using Cons.prems(2) by (auto simp: deliveredTo_def nth_append)
  show ?case
  proof (cases rule: notifyLoop_Cons_cases [of c e loc cs st])
    case thrown
    then show ?thesis using Cons.prems(1) old by simp
  next
    case skip
    show ?thesis
      unfolding skip(2)
      by (rule Cons.IH) (use Cons.prems old in \<open>auto simp: less_Suc_eq\<close>)
  next
    case (delivered st1)
    show ?thesis
      unfolding delivered(3)
      by (rule Cons.IH)
        (use Cons.prems old delivered in \<open>auto simp: less_Suc_eq deliveredTo_append deliveredTo_def\<close>)
  next
    case (failed st1 err)
    show ?thesis
      unfolding failed(3)
      by (rule Cons.IH)
        (use Cons.prems old failed in \<open>auto simp: less_Suc_eq deliveredTo_append deliveredTo_def\<close>)
  qed
qed

lemma handleEscalation_loop:
  obtains (escalates) loc where
      "emergencyContacts (run_session (handleEscalation e st session ta cur)) =
         ns_contacts (notifyLoop e loc (emergencyContacts session)
           \<lparr>ns_contacts = [], ns_actions = [''LIVE_LOCATION_TRACKING_STARTED''],
            ns_notified = [], ns_calls = [], ns_thrown = False\<rparr>)"
      "run_calls (handleEscalation e st session ta cur) =
         ns_calls (notifyLoop e loc (emergencyContacts session)
           \<lparr>ns_contacts = [], ns_actions = [''LIVE_LOCATION_TRACKING_STARTED''],
            ns_notified = [], ns_calls = [], ns_thrown = False\<rparr>)"
      "\<And>esc. run_result (handleEscalation e st session ta cur) = Inr esc \<Longrightarrow>
         emergencyContactsNotified (esc_evidencePacket esc) =
           ns_notified (notifyLoop e loc (emergencyContacts session)
             \<lparr>ns_contacts = [], ns_actions = [''LIVE_LOCATION_TRACKING_STARTED''],
              ns_notified = [], ns_calls = [], ns_thrown = False\<rparr>)"
  | (quiet)
      "emergencyContacts (run_session (handleEscalation e st session ta cur)) =
         emergencyContacts session"
      "run_calls (handleEscalation e st session ta cur) = []"
      "\<And>esc. run_result (handleEscalation e st session ta cur) = Inr esc \<Longrightarrow>
         emergencyContactsNotified (esc_evidencePacket esc) = []"
proof (cases "action ta = SilentDispatch \<or> action ta = EmergencyEscalation")
  case True
  show ?thesis
    by (rule escalates [of "case cur of Some l \<Rightarrow> Some l
          | None \<Rightarrow> (if locationHistory session = [] then None
                     else Some (last (locationHistory session)))"])
      (use True in \<open>auto simp: handleEscalation_def Let_def split: if_splits\<close>)
next
  case False
  show ?thesis
    by (rule quiet) (use False in \<open>auto simp: handleEscalation_def Let_def split: if_splits\<close>)
qed

lemma handleEscalation_contacts_length:
  "length (emergencyContacts (run_session (handleEscalation e st session ta cur))) =
   length (emergencyContacts session)"
  by (cases rule: handleEscalation_loop [of e st session ta cur])
    (simp_all add: notifyLoop_length)

lemma handleEscalation_skips:
  assumes "i < length (emergencyContacts session)"
    and "notified (emergencyContacts session ! i) \<or> email (emergencyContacts session ! i) = []"
  shows "i \<notin> fst ` set (run_calls (handleEscalation e st session ta cur)) \<and>
         emergencyContacts (run_session (handleEscalation e st session ta cur)) ! i =
           emergencyContacts session ! i"
proof (cases rule: handleEscalation_loop [of e st session ta cur])
  case (escalates loc)
  show ?thesis
    unfolding escalates(1,2)
    using assms
      notifyLoop_skip [OF assms, of e loc
        "\<lparr>ns_contacts = [], ns_actions = [''LIVE_LOCATION_TRACKING_STARTED''],
          ns_notified = [], ns_calls = [], ns_thrown = False\<rparr>"]
      notifyLoop_calls [of i e loc "emergencyContacts session"
        "\<lparr>ns_contacts = [], ns_actions = [''LIVE_LOCATION_TRACKING_STARTED''],
          ns_notified = [], ns_calls = [], ns_thrown = False\<rparr>"]
    by auto
next
  case quiet
  then show ?thesis by simp
qed

lemma handleEscalation_delivered:
  assumes "i \<in> set (deliveredTo (run_calls (handleEscalation e st session ta cur)))"
  shows "i < length (emergencyContacts session) \<and>
         notified (emergencyContacts (run_session (handleEscalation e st session ta cur)) ! i)"
proof (cases rule: handleEscalation_loop [of e st session ta cur])
  case (escalates loc)
  show ?thesis
    using assms
      notifyLoop_delivered [of i e loc "emergencyContacts session"
        "\<lparr>ns_contacts = [], ns_actions = [''LIVE_LOCATION_TRACKING_STARTED''],
          ns_notified = [], ns_calls = [], ns_thrown = False\<rparr>"]
    unfolding escalates(1,2) by (simp add: deliveredTo_def)
next
  case quiet
  then show ?thesis using assms by (simp add: deliveredTo_def)
qed

lemma handleEscalation_packet:
  assumes "run_result (handleEscalation e st session ta cur) = Inr esc"
  shows "emergencyContactsNotified (esc_evidencePacket esc) =
         map (nth (emergencyContacts (run_session (handleEscalation e st session ta cur))))
           (deliveredTo (run_calls (handleEscalation e st session ta cur)))"
proof (cases rule: handleEscalation_loop [of e st session ta cur])
  case (escalates loc)
  show ?thesis
    unfolding escalates(1,2) escalates(3) [OF assms]
    by (rule notifyLoop_packet) (simp_all add: deliveredTo_def)
next
  case quiet
  then show ?thesis using assms by (simp add: deliveredTo_def)
qed

text \<open>
  C5. \<open>handleEscalation\<close> skips every contact whose \<open>notified\<close> flag is already true or
  whose email is absent: no \<open>sendAlertEmail\<close> call is made for it and it stays as it is.
  So a second run, on the session that a first run has left, makes no call for a contact
  that the first run notified, leaves that contact as it is, and does not put it into the
  notified list of its evidence packet, which holds exactly the contacts delivered to in
  that run. Contacts are told apart by their position in \<open>session.emergencyContacts\<close>.
\<close>

theorem escalation_notifies_once:
  assumes "r1 = handleEscalation e1 st session ta1 loc1"
    and "r2 = handleEscalation e2 st' (run_session r1) ta2 loc2"
  shows "(\<forall>i<length (emergencyContacts session).
            notified (emergencyContacts session ! i) \<or> email (emergencyContacts session ! i) = [] \<longrightarrow>
            i \<notin> fst ` set (run_calls r1) \<and>
            emergencyContacts (run_session r1) ! i = emergencyContacts session ! i) \<and>
         (\<forall>i\<in>set (deliveredTo (run_calls r1)).
            notified (emergencyContacts (run_session r1) ! i) \<and>
            i \<notin> fst ` set (run_calls r2) \<and>
            i \<notin> set (deliveredTo (run_calls r2)) \<and>
            emergencyContacts (run_session r2) ! i = emergencyContacts (run_session r1) ! i) \<and>
         (\<forall>esc. run_result r2 = Inr esc \<longrightarrow>
            emergencyContactsNotified (esc_evidencePacket esc) =
              map (nth (emergencyContacts (run_session r2))) (deliveredTo (run_calls r2)))"
proof (intro conjI allI impI ballI)
  fix i
  assume "i < length (emergencyContacts session)"
    and "notified (emergencyContacts session ! i) \<or> email (emergencyContacts session ! i) = []"
  then show "i \<notin> fst ` set (run_calls r1)"
    and "emergencyContacts (run_session r1) ! i = emergencyContacts session ! i"
    using handleEscalation_skips [of i session e1 st ta1 loc1] assms(1) by simp_all
next
  fix i
  assume d: "i \<in> set (deliveredTo (run_calls r1))"
  have n: "i < length (emergencyContacts session)" "notified (emergencyContacts (run_session r1) ! i)"
    using d handleEscalation_delivered [of i e1 st session ta1 loc1] assms(1) by simp_all
  have l: "i < length (emergencyContacts (run_session r1))"
    using n(1) handleEscalation_contacts_length [of e1 st session ta1 loc1] assms(1) by simp
  have sk: "i \<notin> fst ` set (run_calls r2) \<and>
      emergencyContacts (run_session r2) ! i = emergencyContacts (run_session r1) ! i"
    using handleEscalation_skips [of i "run_session r1" e2 st' ta2 loc2] l n(2) assms(2) by simp
  show "notified (emergencyContacts (run_session r1) ! i)" by (rule n(2))
  show "i \<notin> fst ` set (run_calls r2)" using sk by simp
  show "i \<notin> set (deliveredTo (run_calls r2))"
    using sk by (auto simp: deliveredTo_def)
  show "emergencyContacts (run_session r2) ! i = emergencyContacts (run_session r1) ! i"
    using sk by simp
next
  fix esc
  assume "run_result r2 = Inr esc"
  then show "emergencyContactsNotified (esc_evidencePacket esc) =
      map (nth (emergencyContacts (run_session r2))) (deliveredTo (run_calls r2))"
    using handleEscalation_packet [of e2 st' "run_session r1" ta2 loc2 esc] assms(2) by simp
qed

lemma sampleFirstRun_contacts:
  "emergencyContacts (run_session sampleFirstRun) =
     [(sampleContact ''ec-1'' ''contact1@example.com'' False)
        \<lparr>notified := True, notifiedAt := Some 1000\<rparr>,
      sampleContact ''ec-2'' ''contact2@example.com'' True,
      sampleContact ''ec-3'' [] False]"
  "run_calls sampleFirstRun = [(0, Delivered)]"
  by (simp_all add: sampleFirstRun_def handleEscalation_def Let_def notifyLoop.simps
      sampleSession_def sampleContact_def sampleEnv_def forcedThreat_def forcedLevelAction_def)

theorem escalation_notifies_once_witness:
  "deliveredTo (run_calls sampleFirstRun) = [0] \<and>
   1 \<notin> fst ` set (run_calls sampleFirstRun) \<and>
   2 \<notin> fst ` set (run_calls sampleFirstRun) \<and>
   notified (emergencyContacts (run_session sampleFirstRun) ! 0) \<and>
   0 \<notin> fst ` set (run_calls sampleSecondRun) \<and>
   0 \<notin> set (deliveredTo (run_calls sampleSecondRun)) \<and>
   emergencyContacts (run_session sampleSecondRun) ! 0 =
     emergencyContacts (run_session sampleFirstRun) ! 0"
proof -
  note t = escalation_notifies_once [OF sampleFirstRun_def sampleSecondRun_def]
  have d: "deliveredTo (run_calls sampleFirstRun) = [0]"
    by (simp add: sampleFirstRun_contacts deliveredTo_def)
  have s: "1 \<notin> fst ` set (run_calls sampleFirstRun)" "2 \<notin> fst ` set (run_calls sampleFirstRun)"
    using t [THEN conjunct1] by (simp_all add: sampleSession_def sampleContact_def)
  have "0 \<in> set (deliveredTo (run_calls sampleFirstRun))" using d by simp
  then have "notified (emergencyContacts (run_session sampleFirstRun) ! 0) \<and>
      0 \<notin> fst ` set (run_calls sampleSecondRun) \<and>
      0 \<notin> set (deliveredTo (run_calls sampleSecondRun)) \<and>
      emergencyContacts (run_session sampleSecondRun) ! 0 =
        emergencyContacts (run_session sampleFirstRun) ! 0"
    using t [THEN conjunct2, THEN conjunct1] by blast
  then show ?thesis using d s by simp
qed

section \<open>The status emergency\<close>

lemma handleEscalation_status:
  "status session = Emergency \<Longrightarrow>
   status (run_session (handleEscalation e st session ta cur)) = Emergency"
  by (simp add: handleEscalation_def Let_def)

lemma handleEscalation_keeps:
  "rideSessions st k = Some s \<Longrightarrow> status s = Emergency \<Longrightarrow>
   \<exists>s'. rideSessions (run_state (handleEscalation e st session ta cur)) k = Some s' \<and>
        status s' = Emergency"
  by (simp add: handleEscalation_def Let_def)

lemma afterEscalation_keeps:
  assumes "rideSessions st k = Some s" and "status s = Emergency"
    and "k = sessionId \<longrightarrow> status session = Emergency"
  shows "\<exists>s'. rideSessions (afterEscalation sessionId (handleEscalation e st session ta cur)) k =
           Some s' \<and> status s' = Emergency"
proof (cases "k = sessionId")
  case True
  then show ?thesis
    using assms(3) handleEscalation_status [of session e st ta cur]
    by (simp add: afterEscalation_def)
next
  case False
  then show ?thesis
    using handleEscalation_keeps [OF assms(1,2), of e session ta cur]
    by (simp add: afterEscalation_def)
qed

lemma updateLocation_keeps:
  assumes "rideSessions st k = Some s" and "status s = Emergency"
    and "k = sessionId \<longrightarrow> (\<forall>c. clientSession = Some c \<longrightarrow> status c = Emergency)"
  shows "\<exists>s'. rideSessions (out_state (updateLocation e st sessionId loc enabled clientSession)) k =
           Some s' \<and> status s' = Emergency"
proof (cases "findSession st sessionId clientSession")
  case None
  then show ?thesis using assms by (simp add: updateLocation_def notFound_def)
next
  case (Some session)
  have op: "k = sessionId \<longrightarrow> status session = Emergency"
    using assms Some by (auto simp: findSession_def split: option.splits)
  show ?thesis
    unfolding updateLocation_def Some option.case Let_def
    by (auto intro!: afterEscalation_keeps simp: assms(1,2) op)
qed

lemma locationDisabled_keeps:
  assumes "rideSessions st k = Some s" and "status s = Emergency"
    and "k = sessionId \<longrightarrow> (\<forall>c. clientSession = Some c \<longrightarrow> status c = Emergency)"
  shows "\<exists>s'. rideSessions (out_state (locationDisabled' e st sessionId lastKnown clientSession)) k =
           Some s' \<and> status s' = Emergency"
proof (cases "findSession st sessionId clientSession")
  case None
  then show ?thesis using assms by (simp add: locationDisabled'_def notFound_def)
next
  case (Some session)
  have op: "k = sessionId \<longrightarrow> status session = Emergency"
    using assms Some by (auto simp: findSession_def split: option.splits)
  show ?thesis
    unfolding locationDisabled'_def Some option.case Let_def
    by (auto intro!: afterEscalation_keeps simp: assms(1,2) op split: option.splits)
qed

lemma networkLoss_keeps:
  assumes "rideSessions st k = Some s" and "status s = Emergency"
    and "k = sessionId \<longrightarrow> (\<forall>c. clientSession = Some c \<longrightarrow> status c = Emergency)"
  shows "\<exists>s'. rideSessions (out_state (networkLoss e st sessionId lastKnown d clientSession)) k =
           Some s' \<and> status s' = Emergency"
proof (cases "findSession st sessionId clientSession")
  case None
  then show ?thesis using assms by (simp add: networkLoss_def notFound_def)
next
  case (Some session)
  have op: "k = sessionId \<longrightarrow> status session = Emergency"
    using assms Some by (auto simp: findSession_def split: option.splits)
  show ?thesis
    unfolding networkLoss_def Some option.case Let_def
    by (auto simp: assms(1,2) op)
qed

lemma manualEmergency_keeps:
  assumes "rideSessions st k = Some s" and "status s = Emergency"
  shows "\<exists>s'. rideSessions (out_state (manualEmergency e st sessionId loc clientSession)) k =
           Some s' \<and> status s' = Emergency"
proof (cases "findSession st sessionId clientSession")
  case None
  then show ?thesis using assms by (simp add: manualEmergency_def notFound_def)
next
  case (Some session)
  define st1 where
    "st1 = st\<lparr>rideSessions := (rideSessions st)(sessionId \<mapsto> session\<lparr>status := Emergency\<rparr>)\<rparr>"
  obtain s1 where s1: "rideSessions st1 k = Some s1" "status s1 = Emergency"
    using assms by (cases "k = sessionId") (simp_all add: st1_def)
  have "\<exists>s'. rideSessions (afterEscalation sessionId
          (handleEscalation e st1 (session\<lparr>status := Emergency\<rparr>)
             \<lparr>ta_timestamp = env_now e, score = 1,
                factors = \<lparr>routeDeviation = 0, suspiciousStops = 0, highRiskZone = 0,
                           locationDisabled = 0\<rparr>,
                level = Critical, action = EmergencyEscalation\<rparr> loc)) k = Some s' \<and>
        status s' = Emergency"
    by (rule afterEscalation_keeps [OF s1]) simp
  then show ?thesis
    unfolding manualEmergency_def Some option.case Let_def st1_def by simp
qed

lemma forceThreatLevel_keeps:
  assumes "rideSessions st k = Some s" and "status s = Emergency"
    and "k = sessionId \<longrightarrow> (\<forall>c. clientSession = Some c \<longrightarrow> status c = Emergency)"
  shows "\<exists>s'. rideSessions (out_state (forceThreatLevel e st sessionId loc forced clientSession)) k =
           Some s' \<and> status s' = Emergency"
proof (cases "findSession st sessionId clientSession")
  case None
  then show ?thesis using assms by (simp add: forceThreatLevel_def notFound_def)
next
  case (Some session)
  have op: "k = sessionId \<longrightarrow> status session = Emergency"
    using assms Some by (auto simp: findSession_def split: option.splits)
  show ?thesis
    unfolding forceThreatLevel_def Some option.case Let_def
    by (auto intro!: afterEscalation_keeps simp: assms(1,2) op)
qed

lemma monitorPOST_keeps:
  assumes "rideSessions st k = Some s" and "status s = Emergency"
    and "requestSessionId request = Some k \<longrightarrow>
         (\<forall>c. requestClientSession request = Some c \<longrightarrow> status c = Emergency)"
  shows "\<exists>s'. rideSessions (out_state (monitorPOST e st request)) k = Some s' \<and>
              status s' = Emergency"
proof (cases request)
  case (UpdateLocation sessionId loc enabled clientSession)
  then show ?thesis
    using assms updateLocation_keeps [OF assms(1,2), of sessionId clientSession e loc enabled]
    by (simp add: monitorPOST_def requestSessionId_def requestClientSession_def)
next
  case (LocationDisabled sessionId lastKnown clientSession)
  then show ?thesis
    using assms locationDisabled_keeps [OF assms(1,2), of sessionId clientSession e lastKnown]
    by (simp add: monitorPOST_def requestSessionId_def requestClientSession_def)
next
  case (NetworkLoss sessionId lastKnown d clientSession)
  then show ?thesis
    using assms networkLoss_keeps [OF assms(1,2), of sessionId clientSession e lastKnown d]
    by (simp add: monitorPOST_def requestSessionId_def requestClientSession_def)
next
  case (ManualEmergency sessionId loc clientSession)
  then show ?thesis
    using manualEmergency_keeps [OF assms(1,2), of e sessionId loc clientSession]
    by (simp add: monitorPOST_def)
next
  case (ForceThreatLevel sessionId loc forced clientSession)
  then show ?thesis
    using assms forceThreatLevel_keeps [OF assms(1,2), of sessionId clientSession e loc forced]
    by (simp add: monitorPOST_def requestSessionId_def requestClientSession_def)
next
  case InvalidAction
  then show ?thesis using assms by (simp add: monitorPOST_def)
qed

lemma ridePOST_emergency:
  assumes "sessions k = Some s" and "status s = Emergency"
  shows "fst (ridePOST sessions (GetSession sessionId)) k = Some s"
    and "\<exists>s'. fst (ridePOST sessions (EndRide sessionId (Some ''emergency''))) k = Some s' \<and>
              status s' = Emergency"
    and "given \<noteq> Some ''emergency'' \<Longrightarrow>
         fst (ridePOST sessions (EndRide k given)) k = Some (s\<lparr>status := Completed\<rparr>)"
    and "find (\<lambda>r. route_id r = routeId) (alternativeRoutes s) = Some r \<Longrightarrow>
         fst (ridePOST sessions (ConfirmRoute k routeId)) k =
           Some (s\<lparr>confirmedRoute := r, status := Active\<rparr>)"
  using assms
  by (auto simp: ridePOST_def Let_def split: option.splits)

text \<open>
  C6, as the code has it. A stored session in status emergency keeps that status under
  every request of the monitoring endpoint (update-location, location-disabled,
  network-loss, manual-emergency, force-threat-level, each with its run of
  \<open>handleEscalation\<close>), unless the request is for that session and carries a client
  snapshot that is not in status emergency, which is then stored in its place. In the
  ride endpoint get-session and end-ride with reason emergency keep the status; end-ride
  with any other reason sets it to completed, and confirm-route with a known route sets
  it to active.
\<close>

theorem emergency_kept_by_monitoring:
  "(rideSessions st k = Some s \<and> status s = Emergency \<and>
    (requestSessionId request = Some k \<longrightarrow>
       (\<forall>c. requestClientSession request = Some c \<longrightarrow> status c = Emergency)) \<longrightarrow>
      (\<exists>s'. rideSessions (out_state (monitorPOST e st request)) k = Some s' \<and>
            status s' = Emergency)) \<and>
   (sessions k = Some s \<and> status s = Emergency \<longrightarrow>
      fst (ridePOST sessions (GetSession sessionId)) k = Some s \<and>
      (\<exists>s'. fst (ridePOST sessions (EndRide sessionId (Some ''emergency''))) k = Some s' \<and>
            status s' = Emergency) \<and>
      (given \<noteq> Some ''emergency'' \<longrightarrow>
         fst (ridePOST sessions (EndRide k given)) k = Some (s\<lparr>status := Completed\<rparr>)) \<and>
      (find (\<lambda>r. route_id r = routeId) (alternativeRoutes s) = Some r \<longrightarrow>
         fst (ridePOST sessions (ConfirmRoute k routeId)) k =
           Some (s\<lparr>confirmedRoute := r, status := Active\<rparr>)))"
  using monitorPOST_keeps [of st k s request e] ridePOST_emergency [of sessions k s]
  by blast

text \<open>
  C6 as stated (no operation ever changes the status emergency) fails: end-ride without a
  reason turns a session in status emergency into a completed one.
\<close>

theorem emergency_left_by_end_ride:
  "status (sampleSession Emergency) = Emergency \<and>
   fst (ridePOST [''ride-1'' \<mapsto> sampleSession Emergency] (EndRide ''ride-1'' None)) ''ride-1'' =
     Some (sampleSession Completed)"
  by (simp add: ridePOST_def sampleSession_def)

theorem emergency_kept_by_monitoring_witness:
  "(\<exists>s'. rideSessions (out_state (monitorPOST (sampleEnv 1000) (sampleStore Emergency)
             (ForceThreatLevel ''ride-1'' None 0.1 None))) ''ride-1'' = Some s' \<and>
        status s' = Emergency) \<and>
   fst (ridePOST [''ride-1'' \<mapsto> sampleSession Emergency] (GetSession ''ride-1'')) ''ride-1'' =
     Some (sampleSession Emergency) \<and>
   fst (ridePOST [''ride-1'' \<mapsto> sampleSession Emergency] (EndRide ''ride-1'' (Some ''completed'')))
     ''ride-1'' = Some ((sampleSession Emergency)\<lparr>status := Completed\<rparr>) \<and>
   fst (ridePOST [''ride-1'' \<mapsto> sampleSession Emergency] (ConfirmRoute ''ride-1'' ''route-0''))
     ''ride-1'' = Some ((sampleSession Emergency)\<lparr>confirmedRoute := sampleRoute, status := Active\<rparr>)"
proof -
  have a: "rideSessions (sampleStore Emergency) ''ride-1'' = Some (sampleSession Emergency)"
    by (simp add: sampleStore_def)
  have b: "status (sampleSession Emergency) = Emergency"
    by (simp add: sampleSession_def)
  have c: "requestClientSession (ForceThreatLevel ''ride-1'' None 0.1 None) = None"
    by (simp add: requestClientSession_def)
  have d: "([''ride-1'' \<mapsto> sampleSession Emergency] :: string \<rightharpoonup> rideSession) ''ride-1'' =
      Some (sampleSession Emergency)"
    by simp
  have f: "find (\<lambda>r. route_id r = ''route-0'') (alternativeRoutes (sampleSession Emergency)) =
      Some sampleRoute"
    by (simp add: sampleSession_def sampleRoute_def)
  have g: "Some ''completed'' \<noteq> Some ''emergency''" by simp
  note m = emergency_kept_by_monitoring [of "sampleStore Emergency" "''ride-1''"
      "sampleSession Emergency" "ForceThreatLevel ''ride-1'' None 0.1 None" "sampleEnv 1000"
      "[''ride-1'' \<mapsto> sampleSession Emergency]" "''ride-1''" "Some ''completed''"
      "''route-0''" sampleRoute]
  have m1: "\<exists>s'. rideSessions (out_state (monitorPOST (sampleEnv 1000) (sampleStore Emergency)
             (ForceThreatLevel ''ride-1'' None 0.1 None))) ''ride-1'' = Some s' \<and>
        status s' = Emergency"
    using m [THEN conjunct1] a b c by simp
  have m2: "fst (ridePOST [''ride-1'' \<mapsto> sampleSession Emergency] (GetSession ''ride-1'')) ''ride-1'' =
      Some (sampleSession Emergency) \<and>
    (\<exists>s'. fst (ridePOST [''ride-1'' \<mapsto> sampleSession Emergency]
           (EndRide ''ride-1'' (Some ''emergency''))) ''ride-1'' = Some s' \<and>
         status s' = Emergency) \<and>
    (Some ''completed'' \<noteq> Some ''emergency'' \<longrightarrow>
     fst (ridePOST [''ride-1'' \<mapsto> sampleSession Emergency] (EndRide ''ride-1'' (Some ''completed'')))
       ''ride-1'' = Some ((sampleSession Emergency)\<lparr>status := Completed\<rparr>)) \<and>
    (find (\<lambda>r. route_id r = ''route-0'') (alternativeRoutes (sampleSession Emergency)) =
       Some sampleRoute \<longrightarrow>
     fst (ridePOST [''ride-1'' \<mapsto> sampleSession Emergency] (ConfirmRoute ''ride-1'' ''route-0''))
       ''ride-1'' = Some ((sampleSession Emergency)\<lparr>confirmedRoute := sampleRoute, status := Active\<rparr>))"
    by (rule mp [OF m [THEN conjunct2]]) (use d b in blast)
  show ?thesis using m1 m2 f g by blast
qed

end
